theory Spec2Isabelle
  imports Main "HOL-Library.Finite_Map"
begin

section \<open>Theme: highlight groups and alias links (internal/theme/theme.go)\<close>

datatype ColorKind = COLOR_NONE | COLOR_RGB | COLOR_INDEX

record Color =
  Kind :: ColorKind
  Red :: nat
  Green :: nat
  Blue :: nat
  Index :: int

record TextStyle =
  Bold :: bool
  Italic :: bool
  Underline :: bool
  Reverse :: bool

record TextHighlight =
  Foreground :: Color
  Background :: Color
  TxtStyle :: TextStyle

text \<open>
  A Go map is a finite partial function, so \<open>Groups\<close> and \<open>Links\<close> are finite maps.
  The fields \<open>Name\<close>, \<open>Background\<close> and \<open>Terminal\<close> play no part in group resolution
  and are kept only as far as they are strings.
\<close>

record Theme =
  Name :: string
  ThemeBackground :: string
  Groups :: "(string, TextHighlight) fmap"
  Links :: "(string, string) fmap"

text \<open>
  The loop of \<open>ResolveGroup\<close>: \<open>visited\<close> is the set of keys of the Go map
  \<open>visited\<close> that hold \<open>true\<close>, \<open>cur\<close> the current name. \<open>None\<close> is the
  result \<open>(TextHighlight{}, false)\<close>, \<open>Some hl\<close> is \<open>(hl, true)\<close>.
\<close>

function ResolveGroup_loop :: "Theme \<Rightarrow> string set \<Rightarrow> string \<Rightarrow> TextHighlight option" where
  "ResolveGroup_loop t visited cur =
     (if cur \<in> visited then None
      else (case fmlookup (Groups t) cur of
              Some hl \<Rightarrow> Some hl
            | None \<Rightarrow>
                (case fmlookup (Links t) cur of
                   None \<Rightarrow> None
                 | Some next \<Rightarrow> ResolveGroup_loop t (insert cur visited) next)))"
  by pat_completeness auto
termination
proof (relation "measure (\<lambda>(t, visited, cur). card (fset (fmdom (Links t)) - visited))")
  show "wf (measure (\<lambda>(t, visited, cur). card (fset (fmdom (Links t)) - visited)))"
    by simp
next
  fix t :: Theme and visited :: "string set" and cur x2
  assume fresh: "cur \<notin> visited" and link: "fmlookup (Links t) cur = Some x2"
  have mem: "cur \<in> fset (fmdom (Links t)) - visited"
    using fresh link by (simp add: fmdomI)
  have "fset (fmdom (Links t)) - insert cur visited \<subset> fset (fmdom (Links t)) - visited"
    using mem by blast
  then have "card (fset (fmdom (Links t)) - insert cur visited) < card (fset (fmdom (Links t)) - visited)"
    by (intro psubset_card_mono) simp_all
  then show "((t, insert cur visited, x2), (t, visited, cur))
      \<in> measure (\<lambda>(t, visited, cur). card (fset (fmdom (Links t)) - visited))"
    by simp
qed

text \<open>\<open>ResolveGroup\<close> on a possibly nil receiver.\<close>

definition ResolveGroup :: "Theme option \<Rightarrow> string \<Rightarrow> TextHighlight option" where
  "ResolveGroup t name =
     (case t of None \<Rightarrow> None | Some th \<Rightarrow> ResolveGroup_loop th {} name)"

text \<open>
  One step along the alias chain: \<open>a\<close> is not directly defined and is linked to \<open>b\<close>.
\<close>

definition alias_step :: "Theme \<Rightarrow> string \<Rightarrow> string \<Rightarrow> bool" where
  "alias_step t a b \<longleftrightarrow> fmlookup (Groups t) a = None \<and> fmlookup (Links t) a = Some b"

text \<open>
  \<open>resolves_to t n hl\<close>: following links from \<open>n\<close> reaches a directly defined group
  whose highlight is \<open>hl\<close>.
\<close>

inductive resolves_to :: "Theme \<Rightarrow> string \<Rightarrow> TextHighlight \<Rightarrow> bool" for t where
  direct: "fmlookup (Groups t) n = Some hl \<Longrightarrow> resolves_to t n hl"
| linked: "alias_step t n m \<Longrightarrow> resolves_to t m hl \<Longrightarrow> resolves_to t n hl"


section \<open>Editor state (internal/editor/editor.go)\<close>

text \<open>
  Go's \<open>int\<close> is modelled by \<open>int\<close>: no computation below comes near the 64-bit
  bounds. A line is a \<open>string\<close> of single-byte characters, for which the byte length
  \<open>len(line)\<close> and the number of runes that \<open>range line\<close> yields coincide.
\<close>

datatype mode = MODE_NORMAL | MODE_INSERT | MODE_COMMAND_LINE

datatype cursorMovement = CURSOR_UP | CURSOR_DOWN | CURSOR_RIGHT | CURSOR_LEFT

datatype Key =
  KeyEscape | KeyEnter | KeyLeft | KeyRight | KeyUp | KeyDown
  | KeyBackspace | KeyBackspace2 | KeyRune | KeyOther

text \<open>
  \<open>actions.Event\<close>: the kind of event, the key code and the rune, which is the
  zero character when the key carries none.
\<close>

record Event =
  EventKind :: string
  Value :: Key
  Rune :: char

record Vertex =
  X :: int
  Y :: int

text \<open>A frame is a slice of rows; a row is \<open>nil\<close> (\<open>None\<close>) or a slice of runes.\<close>

type_synonym frame = "string option list"

text \<open>
  Modelled from the spec: the terminal driver (package \<open>internal/screen\<close>) exposes the
  grid size \<open>ScreenDim\<close> and accepts a grid of characters, a cursor position and a
  status text to paint. The model records what was painted last.
\<close>

record Screen =
  ScreenDim :: Vertex
  shownFrame :: frame
  shownCursor :: Vertex
  shownStatus :: string

record Editor =
  currentMode :: mode
  statusMessage :: string
  fileName :: string
  dataBuffer :: "string list"
  startLine :: int
  cursorPos :: Vertex
  currentCommand :: string
  lastUpDownCursorMovement :: cursorMovement
  firstLineInFrame :: int
  lastLineInFrame :: int
  screen :: Screen
  isDirty :: bool

text \<open>
  What ends a call without a result state: \<open>os.Exit\<close> with its status, the run-time
  panics of Go, and a loop that never ends.
\<close>

datatype stop =
  Exit int
  | Panic_index
  | Panic_slice
  | Panic_divide
  | Panic_makeslice
  | Hang

definition DisplayTextFrame :: "frame \<Rightarrow> Editor \<Rightarrow> Editor" where
  "DisplayTextFrame fr e = e\<lparr>screen := (screen e)\<lparr>shownFrame := fr\<rparr>\<rparr>"

definition DisplayCursor :: "Vertex \<Rightarrow> Editor \<Rightarrow> Editor" where
  "DisplayCursor v e = e\<lparr>screen := (screen e)\<lparr>shownCursor := v\<rparr>\<rparr>"

definition DisplayStatusBar :: "string \<Rightarrow> Editor \<Rightarrow> Editor" where
  "DisplayStatusBar text e = e\<lparr>screen := (screen e)\<lparr>shownStatus := text\<rparr>\<rparr>"

subsection \<open>Go primitives that can panic\<close>

text \<open>\<open>xs[i]\<close>.\<close>

definition index :: "'a list \<Rightarrow> int \<Rightarrow> stop + 'a" where
  "index xs i = (if 0 \<le> i \<and> i < int (length xs) then Inr (xs ! nat i) else Inl Panic_index)"

text \<open>\<open>xs[i] = v\<close>.\<close>

definition assign :: "'a list \<Rightarrow> int \<Rightarrow> 'a \<Rightarrow> stop + 'a list" where
  "assign xs i v =
     (if 0 \<le> i \<and> i < int (length xs) then Inr (xs[nat i := v]) else Inl Panic_index)"

text \<open>\<open>a / b\<close> on integers: truncated towards zero, panics on a zero divisor.\<close>

definition quo :: "int \<Rightarrow> int \<Rightarrow> stop + int" where
  "quo a b = (if b = 0 then Inl Panic_divide else Inr (sgn a * sgn b * (\<bar>a\<bar> div \<bar>b\<bar>)))"

text \<open>\<open>make([]rune, n)\<close>: \<open>n\<close> zero runes.\<close>

definition make_runes :: "int \<Rightarrow> stop + string" where
  "make_runes n = (if n < 0 then Inl Panic_makeslice else Inr (replicate (nat n) (CHR 0x00)))"

text \<open>\<open>s[:k]\<close> and \<open>s[k:]\<close>.\<close>

definition slice_to :: "'a list \<Rightarrow> int \<Rightarrow> stop + 'a list" where
  "slice_to s k = (if 0 \<le> k \<and> k \<le> int (length s) then Inr (take (nat k) s) else Inl Panic_slice)"

definition slice_from :: "'a list \<Rightarrow> int \<Rightarrow> stop + 'a list" where
  "slice_from s k = (if 0 \<le> k \<and> k \<le> int (length s) then Inr (drop (nat k) s) else Inl Panic_slice)"

text \<open>
  \<open>strconv.Atoi\<close> of the Go standard library, from its documentation: an optional sign,
  then one or more decimal digits, and a value that fits 64 bits; anything else is an
  error (\<open>None\<close>).
\<close>

definition is_digit :: "char \<Rightarrow> bool" where
  "is_digit c \<longleftrightarrow> 48 \<le> (of_char c :: nat) \<and> (of_char c :: nat) \<le> 57"

fun dec_value :: "nat \<Rightarrow> string \<Rightarrow> nat option" where
  "dec_value acc [] = Some acc"
| "dec_value acc (c # cs) =
     (if is_digit c then dec_value (acc * 10 + (of_char c - 48)) cs else None)"

definition Atoi :: "string \<Rightarrow> int option" where
  "Atoi s =
     (case s of
        [] \<Rightarrow> None
      | c # cs \<Rightarrow>
          (let neg = (c = CHR ''-'');
               ds = (if c = CHR ''-'' \<or> c = CHR ''+'' then cs else s)
           in if ds = [] then None
              else (case dec_value 0 ds of
                      None \<Rightarrow> None
                    | Some n \<Rightarrow>
                        (let v = (if neg then - int n else int n)
                         in if - (2 ^ 63) \<le> v \<and> v \<le> 2 ^ 63 - 1 then Some v else None))))"

subsection \<open>Accessors\<close>

definition getLinesCount :: "Editor \<Rightarrow> int" where
  "getLinesCount e = int (length (dataBuffer e))"

definition getCurrentLineLength :: "Editor \<Rightarrow> stop + int" where
  "getCurrentLineLength e =
     (case index (dataBuffer e) (Y (cursorPos e)) of
        Inl p \<Rightarrow> Inl p
      | Inr line \<Rightarrow> Inr (int (length line)))"


section \<open>Rendering (internal/editor/renderer.go)\<close>

text \<open>
  The inner loop of \<open>fillTextFrameFromTop\<close>, \<open>for _, char := range line\<close>: writes
  the characters of one line from cell \<open>(x, y)\<close> on and returns the frame with the
  position after the last character.
\<close>

fun fillLine :: "int \<Rightarrow> frame \<Rightarrow> int \<Rightarrow> int \<Rightarrow> string \<Rightarrow> stop + (frame \<times> int \<times> int)" where
  "fillLine W fr x y [] = Inr (fr, x, y)"
| "fillLine W fr x y (c # cs) =
     (case index fr y of
        Inl p \<Rightarrow> Inl p
      | Inr row \<Rightarrow>
          (case (case row of None \<Rightarrow> make_runes W | Some cells \<Rightarrow> Inr cells) of
             Inl p \<Rightarrow> Inl p
           | Inr cells \<Rightarrow>
               (case assign cells x c of
                  Inl p \<Rightarrow> Inl p
                | Inr cells' \<Rightarrow>
                    (if x + 1 = W then fillLine W (fr[nat y := Some cells']) 0 (y + 1) cs
                     else fillLine W (fr[nat y := Some cells']) (x + 1) y cs))))"

text \<open>
  The outer \<open>for\<close> loop of \<open>fillTextFrameFromTop\<close>, from line \<open>i\<close> and frame row
  \<open>y\<close>; returns the frame and the index of the last line laid out.
\<close>

function fillLoop :: "int \<Rightarrow> int \<Rightarrow> string list \<Rightarrow> frame \<Rightarrow> int \<Rightarrow> int \<Rightarrow> stop + (frame \<times> int)" where
  "fillLoop W H buf fr i y =
     (case index buf i of
        Inl p \<Rightarrow> Inl p
      | Inr line \<Rightarrow>
          (case fillLine W fr 0 y line of
             Inl p \<Rightarrow> Inl p
           | Inr (fr', x', y') \<Rightarrow>
               (if i + 1 = int (length buf) \<or> y' = H - 2 then Inr (fr', i)
                else fillLoop W H buf fr' (i + 1) (y' + 1))))"
  by pat_completeness auto
termination
  by (relation "measure (\<lambda>(W, H, buf, fr, i, y). nat (int (length buf) - i))")
     (auto simp: index_def split: if_splits)

definition fillTextFrameFromTop :: "Editor \<Rightarrow> stop + (frame \<times> Editor)" where
  "fillTextFrameFromTop e =
     (if Y (ScreenDim (screen e)) - 1 < 0 then Inl Panic_makeslice
      else (case fillLoop (X (ScreenDim (screen e))) (Y (ScreenDim (screen e))) (dataBuffer e)
                   (replicate (nat (Y (ScreenDim (screen e)) - 1)) None)
                   (firstLineInFrame e) 0 of
              Inl p \<Rightarrow> Inl p
            | Inr (fr, i) \<Rightarrow> Inr (fr, e\<lparr>lastLineInFrame := i\<rparr>)))"

text \<open>
  The loop of \<open>fillEmptyLinesIfAnyWithTilde\<close>, \<open>for i := len - 1; i > 0; i--\<close>.
\<close>

function tildeLoop :: "int \<Rightarrow> frame \<Rightarrow> int \<Rightarrow> bool \<Rightarrow> stop + frame" where
  "tildeLoop W fr i shouldTilde =
     (if i > 0 then
        (case index fr i of
           Inl p \<Rightarrow> Inl p
         | Inr row \<Rightarrow>
             (case row of
                Some cells \<Rightarrow> tildeLoop W fr (i - 1) False
              | None \<Rightarrow>
                  (case make_runes W of
                     Inl p \<Rightarrow> Inl p
                   | Inr cells \<Rightarrow>
                       (if shouldTilde then
                          (case assign cells 0 (CHR ''~'') of
                             Inl p \<Rightarrow> Inl p
                           | Inr cells' \<Rightarrow>
                               tildeLoop W (fr[nat i := Some cells']) (i - 1) shouldTilde)
                        else tildeLoop W (fr[nat i := Some cells]) (i - 1) shouldTilde))))
      else Inr fr)"
  by pat_completeness auto
termination
  by (relation "measure (\<lambda>(W, fr, i, shouldTilde). nat i)") auto

definition fillEmptyLinesIfAnyWithTilde :: "Editor \<Rightarrow> frame \<Rightarrow> stop + frame" where
  "fillEmptyLinesIfAnyWithTilde e textFrameTemp =
     tildeLoop (X (ScreenDim (screen e))) textFrameTemp (int (length textFrameTemp) - 1) True"

text \<open>
  The frame that \<open>syncTextFrame\<close> hands to the terminal driver, with the editor whose
  \<open>lastLineInFrame\<close> is updated.
\<close>

definition renderFrame :: "Editor \<Rightarrow> stop + (frame \<times> Editor)" where
  "renderFrame e =
     (case fillTextFrameFromTop e of
        Inl p \<Rightarrow> Inl p
      | Inr (fr, e') \<Rightarrow>
          (case fillEmptyLinesIfAnyWithTilde e' fr of
             Inl p \<Rightarrow> Inl p
           | Inr fr' \<Rightarrow> Inr (fr', e')))"

text \<open>
  \<open>syncTextFrame(true)\<close>: build the frame and paint it. The theme only chooses the style
  of the painting, so the styled and the plain call record the same frame.
\<close>

definition drawTextFrame :: "Editor \<Rightarrow> stop + Editor" where
  "drawTextFrame e =
     (case renderFrame e of
        Inl p \<Rightarrow> Inl p
      | Inr (fr, e') \<Rightarrow> Inr (DisplayTextFrame fr e'))"

text \<open>The first loop of \<open>syncCursor\<close>: adds \<open>len(line) / width\<close> for the lines above the cursor.\<close>

function cursorRows :: "int \<Rightarrow> string list \<Rightarrow> int \<Rightarrow> int \<Rightarrow> int \<Rightarrow> stop + int" where
  "cursorRows W buf i cy acc =
     (if i < cy then
        (case index buf i of
           Inl p \<Rightarrow> Inl p
         | Inr line \<Rightarrow>
             (case quo (int (length line)) W of
                Inl p \<Rightarrow> Inl p
              | Inr q \<Rightarrow> cursorRows W buf (i + 1) cy (acc + q)))
      else Inr acc)"
  by pat_completeness auto
termination
  by (relation "measure (\<lambda>(W, buf, i, cy, acc). nat (cy - i))") auto

text \<open>
  The second loop of \<open>syncCursor\<close>, \<open>for x > width { x -= width; y++ }\<close>. It never
  ends when the width is not positive and \<open>x\<close> exceeds it: \<open>None\<close>.
\<close>

partial_function (option) wrapCursor :: "int \<Rightarrow> int \<Rightarrow> int \<Rightarrow> (int \<times> int) option" where
  "wrapCursor W x y = (if x > W then wrapCursor W (x - W) (y + 1) else Some (x, y))"

definition cursorPosScreen :: "Editor \<Rightarrow> stop + Vertex" where
  "cursorPosScreen e =
     (case cursorRows (X (ScreenDim (screen e))) (dataBuffer e) (firstLineInFrame e)
             (Y (cursorPos e)) (Y (cursorPos e) - firstLineInFrame e) of
        Inl p \<Rightarrow> Inl p
      | Inr y1 \<Rightarrow>
          (case wrapCursor (X (ScreenDim (screen e))) (X (cursorPos e)) y1 of
             None \<Rightarrow> Inl Hang
           | Some (x, y) \<Rightarrow> Inr \<lparr>X = x, Y = y\<rparr>))"

definition syncCursor :: "Editor \<Rightarrow> stop + Editor" where
  "syncCursor e =
     (case cursorPosScreen e of
        Inl p \<Rightarrow> Inl p
      | Inr pos \<Rightarrow>
          (case drawTextFrame e of
             Inl p \<Rightarrow> Inl p
           | Inr e' \<Rightarrow> Inr (DisplayCursor pos e')))"

definition syncTextFrame :: "bool \<Rightarrow> Editor \<Rightarrow> stop + Editor" where
  "syncTextFrame dontSyncCursor e =
     (case drawTextFrame e of
        Inl p \<Rightarrow> Inl p
      | Inr e' \<Rightarrow> (if dontSyncCursor = False then syncCursor e' else Inr e'))"

definition syncStatusBar :: "Editor \<Rightarrow> Editor" where
  "syncStatusBar e =
     DisplayStatusBar (if length (statusMessage e) > 0 then statusMessage e else currentCommand e) e"

section \<open>Cursor corrections (internal/editor/editor.go)\<close>

text \<open>
  The inner loop of \<open>fixVerticalCursorOverflow\<close>,
  \<open>for i := lastLineInFrame; i >= firstLineInFrame; i--\<close>, whose body moves
  \<open>firstLineInFrame\<close>; returns the final \<open>firstLineInFrame\<close>.
\<close>

function trimTop :: "int \<Rightarrow> string list \<Rightarrow> int \<Rightarrow> int \<Rightarrow> stop + int" where
  "trimTop W buf i first =
     (if i \<ge> first then
        (case index buf i of
           Inl p \<Rightarrow> Inl p
         | Inr line \<Rightarrow>
             (case quo (int (length line)) W of
                Inl p \<Rightarrow> Inl p
              | Inr q \<Rightarrow> trimTop W buf (i - 1) (first + q)))
      else Inr first)"
  by pat_completeness auto
termination
  by (relation "measure (\<lambda>(W, buf, i, first). nat (i + 1))")
     (auto simp: index_def split: if_splits)

function fixVerticalCursorOverflow :: "Editor \<Rightarrow> stop + Editor" where
  "fixVerticalCursorOverflow e =
     (if Y (cursorPos e) > lastLineInFrame e then
        (if lastLineInFrame e + 1 \<ge> int (length (dataBuffer e)) then Inr e
         else
           (case trimTop (X (ScreenDim (screen e))) (dataBuffer e) (lastLineInFrame e + 1)
                   (if lastLineInFrame e + 1 - firstLineInFrame e > Y (ScreenDim (screen e)) - 2
                    then firstLineInFrame e + 1 else firstLineInFrame e) of
              Inl p \<Rightarrow> Inl p
            | Inr first \<Rightarrow>
                fixVerticalCursorOverflow
                  (e\<lparr>lastLineInFrame := lastLineInFrame e + 1, firstLineInFrame := first\<rparr>)))
      else Inr e)"
  by pat_completeness auto
termination
  by (relation "measure (\<lambda>e. nat (int (length (dataBuffer e)) - lastLineInFrame e))") auto

definition fixHorizontalCursorOverflow :: "Editor \<Rightarrow> stop + Editor" where
  "fixHorizontalCursorOverflow e =
     (case getCurrentLineLength e of
        Inl p \<Rightarrow> Inl p
      | Inr len \<Rightarrow>
          (let rangeX = (if currentMode e \<noteq> MODE_INSERT
                         then (if len - 1 < 0 then 0 else len - 1) else len)
           in if rangeX < X (cursorPos e)
              then Inr (e\<lparr>cursorPos := (cursorPos e)\<lparr>X := rangeX\<rparr>\<rparr>)
              else Inr e))"

text \<open>
  \<open>handleTextAreaCursorMovement\<close> returns whether the key was an arrow key, with the
  editor after the move.
\<close>

definition handleTextAreaCursorMovement :: "Event \<Rightarrow> Editor \<Rightarrow> stop + (bool \<times> Editor)" where
  "handleTextAreaCursorMovement event e =
     (case Value event of
        KeyLeft \<Rightarrow>
          (if X (cursorPos e) \<noteq> 0 then
             (case syncCursor (e\<lparr>cursorPos := (cursorPos e)\<lparr>X := X (cursorPos e) - 1\<rparr>\<rparr>) of
                Inl p \<Rightarrow> Inl p
              | Inr e' \<Rightarrow> Inr (True, e'))
           else Inr (True, e))
      | KeyRight \<Rightarrow>
          (case fixHorizontalCursorOverflow
                  (e\<lparr>cursorPos := (cursorPos e)\<lparr>X := X (cursorPos e) + 1\<rparr>\<rparr>) of
             Inl p \<Rightarrow> Inl p
           | Inr e1 \<Rightarrow>
               (case syncCursor e1 of Inl p \<Rightarrow> Inl p | Inr e' \<Rightarrow> Inr (True, e')))
      | KeyDown \<Rightarrow>
          (if Y (cursorPos e) + 1 \<noteq> getLinesCount e then
             (case fixHorizontalCursorOverflow
                     (e\<lparr>cursorPos := (cursorPos e)\<lparr>Y := Y (cursorPos e) + 1\<rparr>,
                        lastUpDownCursorMovement := CURSOR_DOWN\<rparr>) of
                Inl p \<Rightarrow> Inl p
              | Inr e1 \<Rightarrow>
                  (case fixVerticalCursorOverflow e1 of
                     Inl p \<Rightarrow> Inl p
                   | Inr e2 \<Rightarrow>
                       (case syncCursor e2 of Inl p \<Rightarrow> Inl p | Inr e' \<Rightarrow> Inr (True, e'))))
           else Inr (True, e))
      | KeyUp \<Rightarrow>
          (if Y (cursorPos e) \<noteq> 0 then
             (case fixHorizontalCursorOverflow
                     (e\<lparr>cursorPos := (cursorPos e)\<lparr>Y := Y (cursorPos e) - 1\<rparr>,
                        lastUpDownCursorMovement := CURSOR_UP\<rparr>) of
                Inl p \<Rightarrow> Inl p
              | Inr e1 \<Rightarrow>
                  (let e2 =
                     (if Y (cursorPos e1) < firstLineInFrame e1 then
                        (if lastLineInFrame e1 - (firstLineInFrame e1 - 1)
                              > Y (ScreenDim (screen e1)) - 1
                         then e1\<lparr>firstLineInFrame := firstLineInFrame e1 - 1,
                                 lastLineInFrame := lastLineInFrame e1 - 1\<rparr>
                         else e1\<lparr>firstLineInFrame := firstLineInFrame e1 - 1\<rparr>)
                      else e1)
                   in (case syncCursor e2 of Inl p \<Rightarrow> Inl p | Inr e' \<Rightarrow> Inr (True, e'))))
           else Inr (True, e))
      | _ \<Rightarrow> Inr (False, e))"

section \<open>Commands (internal/editor/editor.go)\<close>

definition quit :: "bool \<Rightarrow> Editor \<Rightarrow> stop + Editor" where
  "quit force e =
     (if isDirty e \<and> \<not> force
      then Inr (e\<lparr>statusMessage := ''E37: No write since last change (add ! to override)''\<rparr>)
      else Inl (Exit 0))"

text \<open>
  The branches of \<open>runCommand\<close> before its last three statements.

  Modelled from the spec: \<open>fs.WriteLinesToFile\<close> (package \<open>internal/fs\<close>) is the
  persistence layer's \<open>saveLines(path, lines)\<close>; the parameter \<open>WriteLinesToFile\<close>
  tells whether the save succeeds. \<open>runCommand\<close> calls it and drops what it returns.
\<close>

definition runCommand_dispatch ::
  "(string \<Rightarrow> string list \<Rightarrow> bool) \<Rightarrow> string \<Rightarrow> Editor \<Rightarrow> stop + Editor" where
  "runCommand_dispatch WriteLinesToFile cmd e =
     (case Atoi cmd of
        Some lineNum \<Rightarrow>
          (let lineNum1 = (if lineNum > getLinesCount e then getLinesCount e else lineNum);
               lineNum2 = (if lineNum1 < 1 then 1 else lineNum1)
           in (case fixVerticalCursorOverflow
                      (e\<lparr>cursorPos := (cursorPos e)\<lparr>Y := lineNum2 - 1\<rparr>\<rparr>) of
                 Inl p \<Rightarrow> Inl p
               | Inr e1 \<Rightarrow> syncTextFrame False e1))
      | None \<Rightarrow>
          (if cmd = ''q'' then quit False e
           else if cmd = ''q!'' then quit True e
           else if cmd = ''wq'' \<or> cmd = ''x'' then
             (let saved = (if isDirty e then WriteLinesToFile (fileName e) (dataBuffer e) else True)
              in Inl (Exit 0))
           else Inr e))"

definition runCommand ::
  "(string \<Rightarrow> string list \<Rightarrow> bool) \<Rightarrow> string \<Rightarrow> Editor \<Rightarrow> stop + Editor" where
  "runCommand WriteLinesToFile cmdFull e =
     (case slice_from cmdFull 1 of
        Inl p \<Rightarrow> Inl p
      | Inr cmd \<Rightarrow>
          (case runCommand_dispatch WriteLinesToFile cmd e of
             Inl p \<Rightarrow> Inl p
           | Inr e1 \<Rightarrow>
               Inr ((syncStatusBar (e1\<lparr>currentCommand := []\<rparr>))\<lparr>currentMode := MODE_NORMAL\<rparr>)))"

definition switchToInsertMode :: "Editor \<Rightarrow> Editor" where
  "switchToInsertMode e =
     syncStatusBar (e\<lparr>currentMode := MODE_INSERT, statusMessage := ''-- INSERT --''\<rparr>)"

definition handleKeyCommandLineMode :: "Event \<Rightarrow> Editor \<Rightarrow> stop + Editor" where
  "handleKeyCommandLineMode event e =
     (if Rune event = CHR 0x00 \<or> Value event = KeyEnter then Inr e
      else if Value event = KeyBackspace \<or> Value event = KeyBackspace2 then
        (case slice_to (currentCommand e) (int (length (currentCommand e)) - 1) of
           Inl p \<Rightarrow> Inl p
         | Inr c \<Rightarrow> Inr (syncStatusBar (e\<lparr>currentCommand := c\<rparr>)))
      else Inr (syncStatusBar (e\<lparr>currentCommand := currentCommand e @ [Rune event]\<rparr>)))"

definition handleKeyNormalMode :: "Event \<Rightarrow> Editor \<Rightarrow> stop + Editor" where
  "handleKeyNormalMode event e =
     (if Rune event = CHR '':'' then
        handleKeyCommandLineMode event (e\<lparr>currentMode := MODE_COMMAND_LINE, statusMessage := []\<rparr>)
      else if Rune event = CHR ''i'' then Inr (switchToInsertMode e)
      else if Rune event = CHR ''A'' then
        (case getCurrentLineLength e of
           Inl p \<Rightarrow> Inl p
         | Inr len \<Rightarrow> syncCursor (switchToInsertMode (e\<lparr>cursorPos := (cursorPos e)\<lparr>X := len\<rparr>\<rparr>)))
      else if Rune event = CHR ''G'' then
        (let l = (if getLinesCount e - 1 < 0 then 0 else getLinesCount e - 1)
         in (case fixVerticalCursorOverflow (e\<lparr>cursorPos := (cursorPos e)\<lparr>Y := l\<rparr>\<rparr>) of
               Inl p \<Rightarrow> Inl p
             | Inr e1 \<Rightarrow> syncTextFrame False e1))
      else Inr e)"

section \<open>Insert mode (internal/editor/editor.go)\<close>

text \<open>
  The shifting loop of the \<open>Enter\<close> case,
  \<open>for i := len(newBuffer) - 1; i > cursorPos.Y; i--\<close>.
\<close>

function shiftDown :: "string list \<Rightarrow> int \<Rightarrow> int \<Rightarrow> stop + string list" where
  "shiftDown newBuffer i cy =
     (if i > cy then
        (case index newBuffer (i - 1) of
           Inl p \<Rightarrow> Inl p
         | Inr v \<Rightarrow>
             (case assign newBuffer i v of
                Inl p \<Rightarrow> Inl p
              | Inr newBuffer' \<Rightarrow> shiftDown newBuffer' (i - 1) cy))
      else Inr newBuffer)"
  by pat_completeness auto
termination
  by (relation "measure (\<lambda>(newBuffer, i, cy). nat i)") (auto simp: index_def split: if_splits)

text \<open>The \<open>newBuffer\<close> that the \<open>Enter\<close> case builds.\<close>

definition enterNewBuffer :: "Editor \<Rightarrow> stop + string list" where
  "enterNewBuffer e =
     (case (if Y (cursorPos e) < getLinesCount e - 1
            then shiftDown (dataBuffer e @ [[]]) (int (length (dataBuffer e @ [[]])) - 1)
                   (Y (cursorPos e))
            else Inr (dataBuffer e @ [[]])) of
        Inl p \<Rightarrow> Inl p
      | Inr nb1 \<Rightarrow>
          (case index (dataBuffer e) (Y (cursorPos e)) of
             Inl p \<Rightarrow> Inl p
           | Inr line \<Rightarrow>
               (if X (cursorPos e) < int (length line) then
                  (case slice_to line (X (cursorPos e)) of
                     Inl p \<Rightarrow> Inl p
                   | Inr pre \<Rightarrow>
                       (case assign nb1 (Y (cursorPos e)) pre of
                          Inl p \<Rightarrow> Inl p
                        | Inr nb2 \<Rightarrow>
                            (case slice_from line (X (cursorPos e)) of
                               Inl p \<Rightarrow> Inl p
                             | Inr post \<Rightarrow> assign nb2 (Y (cursorPos e) + 1) post)))
                else Inr nb1)))"

text \<open>
  The loop of the merge case of \<open>Backspace\<close>, \<open>for i, line := range dataBuffer\<close>,
  over the lines still to visit, with \<open>i\<close> the index of the first of them.
\<close>

fun mergeLoop ::
  "string list \<Rightarrow> int \<Rightarrow> string list \<Rightarrow> int \<Rightarrow> string list \<Rightarrow> int \<Rightarrow> stop + string list" where
  "mergeLoop buf cy [] i newBuffer j = Inr newBuffer"
| "mergeLoop buf cy (line # rest) i newBuffer j =
     (if i = cy then mergeLoop buf cy rest (i + 1) newBuffer j
      else
        (case (if i = cy - 1
               then (case index buf cy of Inl p \<Rightarrow> Inl p | Inr l \<Rightarrow> Inr (line @ l))
               else Inr line) of
           Inl p \<Rightarrow> Inl p
         | Inr line' \<Rightarrow>
             (case assign newBuffer j line' of
                Inl p \<Rightarrow> Inl p
              | Inr newBuffer' \<Rightarrow> mergeLoop buf cy rest (i + 1) newBuffer' (j + 1))))"

text \<open>The two cases of \<open>Backspace\<close> away from the origin, before the redraw.\<close>

definition backspaceDeleteChar :: "Editor \<Rightarrow> stop + Editor" where
  "backspaceDeleteChar e =
     (case index (dataBuffer e) (Y (cursorPos e)) of
        Inl p \<Rightarrow> Inl p
      | Inr line \<Rightarrow>
          (case slice_to line (X (cursorPos e) - 1) of
             Inl p \<Rightarrow> Inl p
           | Inr pre \<Rightarrow>
               (case slice_from line (X (cursorPos e)) of
                  Inl p \<Rightarrow> Inl p
                | Inr post \<Rightarrow>
                    (case assign (dataBuffer e) (Y (cursorPos e)) (pre @ post) of
                       Inl p \<Rightarrow> Inl p
                     | Inr buf' \<Rightarrow>
                         Inr (e\<lparr>dataBuffer := buf',
                                cursorPos := (cursorPos e)\<lparr>X := X (cursorPos e) - 1\<rparr>\<rparr>)))))"

definition backspaceMergeLines :: "Editor \<Rightarrow> stop + Editor" where
  "backspaceMergeLines e =
     (if getLinesCount e - 1 < 0 then Inl Panic_makeslice
      else
        (case mergeLoop (dataBuffer e) (Y (cursorPos e)) (dataBuffer e) 0
                (replicate (nat (getLinesCount e - 1)) []) 0 of
           Inl p \<Rightarrow> Inl p
         | Inr newBuffer \<Rightarrow>
             (case index (dataBuffer e) (Y (cursorPos e) - 1) of
                Inl p \<Rightarrow> Inl p
              | Inr prev \<Rightarrow>
                  Inr (e\<lparr>cursorPos := \<lparr>X = int (length prev), Y = Y (cursorPos e) - 1\<rparr>,
                         dataBuffer := newBuffer\<rparr>))))"

definition insertRune :: "char \<Rightarrow> Editor \<Rightarrow> stop + Editor" where
  "insertRune r e =
     (case index (dataBuffer e) (Y (cursorPos e)) of
        Inl p \<Rightarrow> Inl p
      | Inr line \<Rightarrow>
          (case slice_to line (X (cursorPos e)) of
             Inl p \<Rightarrow> Inl p
           | Inr pre \<Rightarrow>
               (case slice_from line (X (cursorPos e)) of
                  Inl p \<Rightarrow> Inl p
                | Inr post \<Rightarrow>
                    (case assign (dataBuffer e) (Y (cursorPos e)) (pre @ [r] @ post) of
                       Inl p \<Rightarrow> Inl p
                     | Inr buf' \<Rightarrow>
                         Inr (e\<lparr>dataBuffer := buf',
                                cursorPos := (cursorPos e)\<lparr>X := X (cursorPos e) + 1\<rparr>\<rparr>)))))"

definition handleKeyInsertMode :: "Event \<Rightarrow> Editor \<Rightarrow> stop + Editor" where
  "handleKeyInsertMode event e =
     (if Value event = KeyEnter then
        (case enterNewBuffer (e\<lparr>isDirty := True\<rparr>) of
           Inl p \<Rightarrow> Inl p
         | Inr newBuffer \<Rightarrow>
             (case fixVerticalCursorOverflow
                     (e\<lparr>isDirty := True,
                        cursorPos := \<lparr>X = 0, Y = Y (cursorPos e) + 1\<rparr>,
                        lastUpDownCursorMovement := CURSOR_DOWN,
                        dataBuffer := newBuffer\<rparr>) of
                Inl p \<Rightarrow> Inl p
              | Inr e1 \<Rightarrow> syncTextFrame False e1))
      else if Value event = KeyBackspace \<or> Value event = KeyBackspace2 then
        (if X (cursorPos e) = 0 \<and> Y (cursorPos e) = 0 then Inr (e\<lparr>isDirty := True\<rparr>)
         else
           (case (if X (cursorPos e) > 0 then backspaceDeleteChar (e\<lparr>isDirty := True\<rparr>)
                  else backspaceMergeLines (e\<lparr>isDirty := True\<rparr>)) of
              Inl p \<Rightarrow> Inl p
            | Inr e1 \<Rightarrow> syncTextFrame False e1))
      else if Rune event = CHR 0x00 then Inr (e\<lparr>isDirty := True\<rparr>)
      else
        (case insertRune (Rune event) (e\<lparr>isDirty := True\<rparr>) of
           Inl p \<Rightarrow> Inl p
         | Inr e1 \<Rightarrow> syncTextFrame False e1))"

section \<open>The event loop (internal/editor/editor.go)\<close>

text \<open>One round of the loop of \<open>HandleUserActions\<close>.\<close>

definition handleEvent ::
  "(string \<Rightarrow> string list \<Rightarrow> bool) \<Rightarrow> Event \<Rightarrow> Editor \<Rightarrow> stop + Editor" where
  "handleEvent WriteLinesToFile event e =
     (if EventKind event \<noteq> ''KEY_PRESS'' then Inr e
      else
        (case currentMode e of
           MODE_INSERT \<Rightarrow>
             (if Value event = KeyEscape then
                (case fixHorizontalCursorOverflow
                        (syncStatusBar (e\<lparr>currentMode := MODE_NORMAL, statusMessage := []\<rparr>)) of
                   Inl p \<Rightarrow> Inl p
                 | Inr e1 \<Rightarrow> syncCursor e1)
              else
                (case handleTextAreaCursorMovement event e of
                   Inl p \<Rightarrow> Inl p
                 | Inr (processed, e1) \<Rightarrow>
                     (if processed then syncCursor e1 else handleKeyInsertMode event e1)))
         | MODE_NORMAL \<Rightarrow>
             (case handleTextAreaCursorMovement event e of
                Inl p \<Rightarrow> Inl p
              | Inr (processed, e1) \<Rightarrow>
                  (if processed then syncCursor e1 else handleKeyNormalMode event e1))
         | MODE_COMMAND_LINE \<Rightarrow>
             (if Value event = KeyEscape then
                Inr (syncStatusBar (e\<lparr>currentMode := MODE_NORMAL, currentCommand := []\<rparr>))
              else
                (case (if Value event = KeyEnter
                       then runCommand WriteLinesToFile (currentCommand e) e else Inr e) of
                   Inl p \<Rightarrow> Inl p
                 | Inr e1 \<Rightarrow> handleKeyCommandLineMode event e1))))"

fun HandleUserActions ::
  "(string \<Rightarrow> string list \<Rightarrow> bool) \<Rightarrow> Event list \<Rightarrow> Editor \<Rightarrow> stop + Editor" where
  "HandleUserActions WriteLinesToFile [] e = Inr e"
| "HandleUserActions WriteLinesToFile (event # events) e =
     (case handleEvent WriteLinesToFile event e of
        Inl p \<Rightarrow> Inl p
      | Inr e' \<Rightarrow> HandleUserActions WriteLinesToFile events e')"

section \<open>Start of a session (internal/editor/editor.go)\<close>

text \<open>Decimal digits of a number, as \<open>fmt.Sprintf\<close> prints it for \<open>%v\<close>.\<close>

function show_nat :: "nat \<Rightarrow> string" where
  "show_nat n =
     (if n < 10 then [char_of (48 + n)] else show_nat (n div 10) @ [char_of (48 + n mod 10)])"
  by pat_completeness auto
termination
  by (relation "measure (\<lambda>n. n)") auto

text \<open>
  \<open>NewEditor\<close> builds the editor, draws it and runs the event loop until the channel
  of events is closed.

  Modelled from the spec: \<open>fs.ReadFileToLines\<close> (package \<open>internal/fs\<close>) is the
  persistence layer's \<open>loadLines(path)\<close>; \<open>loaded\<close> is what it returns, \<open>None\<close>
  for an error. \<open>terminal.NewScreen\<close> is taken to succeed with a grid of size \<open>dim\<close>,
  and \<open>events\<close> are the events that the terminal driver sends.
\<close>

definition NewEditor ::
  "(string \<Rightarrow> string list \<Rightarrow> bool) \<Rightarrow> string \<Rightarrow> string list option \<Rightarrow> Vertex \<Rightarrow> Event list
     \<Rightarrow> stop + Editor" where
  "NewEditor WriteLinesToFile f loaded dim events =
     (case syncTextFrame False
             \<lparr>currentMode = MODE_NORMAL,
              statusMessage =
                [CHR 0x22] @ f @ [CHR 0x22] @
                (case loaded of
                   None \<Rightarrow> '' [New File]''
                 | Some ls \<Rightarrow>
                     '' '' @ show_nat (length ls) @ ''L, '' @
                     show_nat (sum_list (map (\<lambda>line. length line + 1) ls)) @ ''C''),
              fileName = f,
              dataBuffer = (case loaded of None \<Rightarrow> [[]] | Some ls \<Rightarrow> ls),
              startLine = 0,
              cursorPos = \<lparr>X = 0, Y = 0\<rparr>,
              currentCommand = [],
              lastUpDownCursorMovement = CURSOR_UP,
              firstLineInFrame = 0,
              lastLineInFrame = 0,
              screen = \<lparr>ScreenDim = dim, shownFrame = [], shownCursor = \<lparr>X = 0, Y = 0\<rparr>,
                        shownStatus = []\<rparr>,
              isDirty = False\<rparr> of
        Inl p \<Rightarrow> Inl p
      | Inr e1 \<Rightarrow>
          (case syncCursor e1 of
             Inl p \<Rightarrow> Inl p
           | Inr e2 \<Rightarrow> HandleUserActions WriteLinesToFile events (syncStatusBar e2)))"

section \<open>Notions used in the statements\<close>

text \<open>A key press without a rune, and a key press that carries a rune.\<close>

definition pressKey :: "Key \<Rightarrow> Event" where
  "pressKey k = \<lparr>EventKind = ''KEY_PRESS'', Value = k, Rune = CHR 0x00\<rparr>"

definition typeRune :: "char \<Rightarrow> Event" where
  "typeRune c = \<lparr>EventKind = ''KEY_PRESS'', Value = KeyRune, Rune = c\<rparr>"

text \<open>A persistence layer whose save always succeeds, and one whose save always fails.\<close>

definition saveSucceeds :: "string \<Rightarrow> string list \<Rightarrow> bool" where
  "saveSucceeds path ls = True"

definition saveFails :: "string \<Rightarrow> string list \<Rightarrow> bool" where
  "saveFails path ls = False"




text \<open>An editor in a given mode on given lines, with the cursor and the window given.\<close>

definition editorOn :: "mode \<Rightarrow> string list \<Rightarrow> Vertex \<Rightarrow> int \<Rightarrow> int \<Rightarrow> Vertex \<Rightarrow> Editor" where
  "editorOn m buf cur first lst dim =
     \<lparr>currentMode = m, statusMessage = [], fileName = ''notes.txt'', dataBuffer = buf,
      startLine = 0, cursorPos = cur, currentCommand = [],
      lastUpDownCursorMovement = CURSOR_UP, firstLineInFrame = first, lastLineInFrame = lst,
      screen = \<lparr>ScreenDim = dim, shownFrame = [], shownCursor = \<lparr>X = 0, Y = 0\<rparr>,
                shownStatus = []\<rparr>,
      isDirty = False\<rparr>"

text \<open>Two themes: a chain of links that ends in a defined group, and a cycle of links.\<close>

definition plainHighlight :: TextHighlight where
  "plainHighlight =
     \<lparr>Foreground = \<lparr>Kind = COLOR_INDEX, Red = 0, Green = 0, Blue = 0, Index = 7\<rparr>,
      Background = \<lparr>Kind = COLOR_NONE, Red = 0, Green = 0, Blue = 0, Index = 0\<rparr>,
      TxtStyle = \<lparr>Bold = True, Italic = False, Underline = False, Reverse = False\<rparr>\<rparr>"

definition chainTheme :: Theme where
  "chainTheme =
     \<lparr>Name = ''chain'', ThemeBackground = ''dark'',
      Groups = fmap_of_list [(''Normal'', plainHighlight)],
      Links = fmap_of_list [(''Comment'', ''Text''), (''Text'', ''Normal'')]\<rparr>"

definition cycleTheme :: Theme where
  "cycleTheme =
     \<lparr>Name = ''cycle'', ThemeBackground = ''dark'',
      Groups = fmap_of_list [(''Normal'', plainHighlight)],
      Links = fmap_of_list [(''Comment'', ''Text''), (''Text'', ''Comment'')]\<rparr>"

text \<open>
  The equations of the loops are recursive without a pattern; they are unfolded only
  where a proof asks for them.
\<close>

declare ResolveGroup_loop.simps [simp del]
declare fillLoop.simps [simp del]
declare tildeLoop.simps [simp del]
declare cursorRows.simps [simp del]
declare trimTop.simps [simp del]
declare fixVerticalCursorOverflow.simps [simp del]
declare shiftDown.simps [simp del]
declare show_nat.simps [simp del]

section \<open>Properties of the theme resolver\<close>

lemma alias_step_det: "alias_step t a b \<Longrightarrow> alias_step t a c \<Longrightarrow> b = c"
  by (simp add: alias_step_def)

lemma resolves_to_step: "resolves_to t n hl \<Longrightarrow> alias_step t n m \<Longrightarrow> resolves_to t m hl"
  by (erule resolves_to.cases) (auto simp: alias_step_def)

lemma resolves_to_steps: "(alias_step t)\<^sup>*\<^sup>* n m \<Longrightarrow> resolves_to t n hl \<Longrightarrow> resolves_to t m hl"
  by (induction rule: rtranclp_induct) (auto intro: resolves_to_step)

lemma resolves_to_acyclic: "resolves_to t n hl \<Longrightarrow> \<not> (alias_step t)\<^sup>+\<^sup>+ n n"
proof (induction rule: resolves_to.induct)
  case (direct n hl)
  show ?case
  proof
    assume "(alias_step t)\<^sup>+\<^sup>+ n n"
    then obtain x where "alias_step t n x" by (auto dest: tranclpD)
    with direct show False by (simp add: alias_step_def)
  qed
next
  case (linked n m hl)
  show ?case
  proof
    assume "(alias_step t)\<^sup>+\<^sup>+ n n"
    then obtain x where x: "alias_step t n x" "(alias_step t)\<^sup>*\<^sup>* x n" by (auto dest: tranclpD)
    with linked(1) have "x = m" by (auto dest: alias_step_det)
    with x linked(1) have "(alias_step t)\<^sup>+\<^sup>+ m m" by (auto intro: rtranclp_into_tranclp1)
    with linked(3) show False by simp
  qed
qed

lemma loop_sound: "ResolveGroup_loop t V cur = Some hl \<Longrightarrow> resolves_to t cur hl"
proof (induction t V cur rule: ResolveGroup_loop.induct)
  case (1 t visited cur)
  show ?case
  proof (cases "fmlookup (Groups t) cur")
    case (Some h)
    with "1.prems" have "h = hl" by (simp add: ResolveGroup_loop.simps[of t visited cur] split: if_splits)
    with Some show ?thesis by (simp add: resolves_to.direct)
  next
    case None
    with "1.prems" obtain nxt where nxt: "cur \<notin> visited" "fmlookup (Links t) cur = Some nxt"
      "ResolveGroup_loop t (insert cur visited) nxt = Some hl"
      by (auto simp: ResolveGroup_loop.simps[of t visited cur] split: if_splits option.splits)
    from "1.IH"[OF nxt(1) None nxt(2) nxt(3)] have "resolves_to t nxt hl" .
    moreover have "alias_step t cur nxt" using None nxt(2) by (simp add: alias_step_def)
    ultimately show ?thesis by (rule resolves_to.linked[rotated])
  qed
qed

lemma loop_complete:
  "resolves_to t cur hl \<Longrightarrow> (\<forall>v\<in>V. (alias_step t)\<^sup>+\<^sup>+ v cur) \<Longrightarrow> ResolveGroup_loop t V cur = Some hl"
proof (induction arbitrary: V rule: resolves_to.induct)
  case (direct n hl)
  have "n \<notin> V"
  proof
    assume "n \<in> V"
    with direct(2) have "(alias_step t)\<^sup>+\<^sup>+ n n" by blast
    with resolves_to_acyclic[OF resolves_to.direct[OF direct(1)]] show False by simp
  qed
  with direct(1) show ?case by (simp add: ResolveGroup_loop.simps[of t V n])
next
  case (linked n m hl)
  have res: "resolves_to t n hl" using linked(1,2) by (rule resolves_to.linked)
  have "n \<notin> V"
  proof
    assume "n \<in> V"
    with linked(4) have "(alias_step t)\<^sup>+\<^sup>+ n n" by blast
    with resolves_to_acyclic[OF res] show False by simp
  qed
  moreover have "\<forall>v\<in>insert n V. (alias_step t)\<^sup>+\<^sup>+ v m"
    using linked(1,4) by (auto intro: tranclp.trancl_into_trancl)
  then have "ResolveGroup_loop t (insert n V) m = Some hl" by (rule linked(3))
  ultimately show ?case using linked(1)
    by (simp add: alias_step_def ResolveGroup_loop.simps[of t V n])
qed

lemma ResolveGroup_iff: "ResolveGroup (Some t) name = Some hl \<longleftrightarrow> resolves_to t name hl"
  unfolding ResolveGroup_def using loop_sound[of t "{}" name hl] loop_complete[of t name hl "{}"]
  by auto

text \<open>
  Claim C9. \<open>ResolveGroup\<close> is a total function: for every theme, whose groups and
  links are finite maps, and every name it returns. It returns a highlight exactly when
  following the links from the name reaches a directly defined group, and then that
  group's highlight; it returns "unresolved" on a nil theme, when the chain of links
  runs into a cycle, and when it reaches a name that is neither defined nor linked.
\<close>

theorem ResolveGroup_follows_alias_chain:
  "ResolveGroup None name = None \<and>
   ((ResolveGroup (Some t) name = Some hl) = resolves_to t name hl) \<and>
   ((alias_step t)\<^sup>*\<^sup>* name m \<and> (alias_step t)\<^sup>+\<^sup>+ m m \<longrightarrow> ResolveGroup (Some t) name = None) \<and>
   ((alias_step t)\<^sup>*\<^sup>* name m \<and> fmlookup (Groups t) m = None \<and> fmlookup (Links t) m = None
      \<longrightarrow> ResolveGroup (Some t) name = None)"
proof (intro conjI impI)
  show "ResolveGroup None name = None" by (simp add: ResolveGroup_def)
  show "(ResolveGroup (Some t) name = Some hl) = resolves_to t name hl" by (rule ResolveGroup_iff)
next
  assume a: "(alias_step t)\<^sup>*\<^sup>* name m \<and> (alias_step t)\<^sup>+\<^sup>+ m m"
  show "ResolveGroup (Some t) name = None"
  proof (cases "ResolveGroup (Some t) name")
    case (Some h)
    then have "resolves_to t name h" by (simp add: ResolveGroup_iff)
    with a have "resolves_to t m h" by (auto intro: resolves_to_steps)
    with a show ?thesis by (auto dest: resolves_to_acyclic)
  qed simp
next
  assume a: "(alias_step t)\<^sup>*\<^sup>* name m \<and> fmlookup (Groups t) m = None \<and> fmlookup (Links t) m = None"
  show "ResolveGroup (Some t) name = None"
  proof (cases "ResolveGroup (Some t) name")
    case (Some h)
    then have "resolves_to t name h" by (simp add: ResolveGroup_iff)
    with a have "resolves_to t m h" by (auto intro: resolves_to_steps)
    with a show ?thesis by (auto elim: resolves_to.cases simp: alias_step_def)
  qed simp
qed

theorem ResolveGroup_follows_alias_chain_witness:
  "resolves_to chainTheme ''Comment'' plainHighlight \<and>
   ResolveGroup (Some chainTheme) ''Comment'' = Some plainHighlight \<and>
   (alias_step cycleTheme)\<^sup>*\<^sup>* ''Comment'' ''Text'' \<and> (alias_step cycleTheme)\<^sup>+\<^sup>+ ''Text'' ''Text'' \<and>
   ResolveGroup (Some cycleTheme) ''Comment'' = None \<and>
   (alias_step chainTheme)\<^sup>*\<^sup>* ''Text'' ''Text'' \<and> fmlookup (Groups chainTheme) ''Missing'' = None \<and>
   fmlookup (Links chainTheme) ''Missing'' = None \<and>
   ResolveGroup (Some chainTheme) ''Missing'' = None"
proof -
  have r: "ResolveGroup (Some chainTheme) ''Comment'' = Some plainHighlight"
    by (simp add: ResolveGroup_def chainTheme_def ResolveGroup_loop.simps)
  have s1: "alias_step cycleTheme ''Comment'' ''Text''" by (simp add: alias_step_def cycleTheme_def)
  have s2: "alias_step cycleTheme ''Text'' ''Comment''" by (simp add: alias_step_def cycleTheme_def)
  have c1: "(alias_step cycleTheme)\<^sup>*\<^sup>* ''Comment'' ''Text''" by (rule r_into_rtranclp[of "alias_step cycleTheme", OF s1])
  have c2: "(alias_step cycleTheme)\<^sup>+\<^sup>+ ''Text'' ''Text''"
    by (rule tranclp.trancl_into_trancl[of "alias_step cycleTheme",
          OF tranclp.r_into_trancl[of "alias_step cycleTheme", OF s2] s1])
  have m1: "fmlookup (Groups chainTheme) ''Missing'' = None" by (simp add: chainTheme_def)
  have m2: "fmlookup (Links chainTheme) ''Missing'' = None" by (simp add: chainTheme_def)
  have m0: "(alias_step chainTheme)\<^sup>*\<^sup>* ''Missing'' ''Missing''" by simp
  have m3: "(alias_step chainTheme)\<^sup>*\<^sup>* ''Text'' ''Text''" by simp
  from ResolveGroup_follows_alias_chain[of "''Comment''" chainTheme plainHighlight "''Comment''"] r
  have a: "resolves_to chainTheme ''Comment'' plainHighlight" by simp
  from ResolveGroup_follows_alias_chain[of "''Comment''" cycleTheme plainHighlight "''Text''"] c1 c2
  have b: "ResolveGroup (Some cycleTheme) ''Comment'' = None" by (elim conjE) (erule mp, intro conjI)
  from ResolveGroup_follows_alias_chain[of "''Missing''" chainTheme plainHighlight "''Missing''"] m0 m1 m2
  have c: "ResolveGroup (Some chainTheme) ''Missing'' = None" by blast
  from a r c1 c2 b m3 m1 m2 c show ?thesis by (intro conjI)
qed

section \<open>Properties of the command line\<close>

lemma slice_from_1: "slice_from (c # cmd) 1 = Inr cmd"
  by (simp add: slice_from_def)

lemma Atoi_words:
  "Atoi ''q'' = None" "Atoi ''q!'' = None" "Atoi ''wq'' = None" "Atoi ''x'' = None"
  by (simp_all add: Atoi_def is_digit_def)

lemma status_text_after_clear:
  "syncStatusBar (e\<lparr>currentCommand := []\<rparr>)
     = e\<lparr>currentCommand := [], screen := (screen e)\<lparr>shownStatus := statusMessage e\<rparr>\<rparr>"
  by (cases "statusMessage e") (simp_all add: syncStatusBar_def DisplayStatusBar_def)

lemma runCommand_q_dirty:
  "isDirty e \<Longrightarrow>
   runCommand W '':q'' e =
     Inr (e\<lparr>statusMessage := ''E37: No write since last change (add ! to override)'',
            currentCommand := [],
            screen := (screen e)\<lparr>shownStatus := ''E37: No write since last change (add ! to override)''\<rparr>,
            currentMode := MODE_NORMAL\<rparr>)"
  by (simp add: runCommand_def slice_from_1 runCommand_dispatch_def Atoi_words quit_def
      syncStatusBar_def DisplayStatusBar_def)

lemma not_arrow_key:
  "Value ev = KeyBackspace \<or> Value ev = KeyBackspace2 \<or> Value ev = KeyEnter \<or> Value ev = KeyRune
   \<Longrightarrow> handleTextAreaCursorMovement ev e = Inr (False, e)"
  by (auto simp: handleTextAreaCursorMovement_def)

lemmas eval_simps =
  editorOn_def pressKey_def typeRune_def handleEvent_def handleKeyCommandLineMode_def
  runCommand_def runCommand_dispatch_def slice_from_def slice_to_def Atoi_def is_digit_def
  getLinesCount_def getCurrentLineLength_def index_def assign_def quo_def make_runes_def
  syncTextFrame_def syncCursor_def drawTextFrame_def renderFrame_def fillTextFrameFromTop_def
  fillEmptyLinesIfAnyWithTilde_def cursorPosScreen_def DisplayTextFrame_def DisplayCursor_def
  DisplayStatusBar_def syncStatusBar_def wrapCursor.simps fillLoop.simps tildeLoop.simps
  cursorRows.simps trimTop.simps fixVerticalCursorOverflow.simps shiftDown.simps

text \<open>
  Claim C6. While the dirty flag is set, an unforced quit is refused: \<open>quit(false)\<close> only
  sets the status message "E37: No write since last change (add ! to override)", and the
  command \<open>:q\<close> returns an editor with the same buffer, that message, an empty command
  string and Normal mode, so the process does not exit. The forced quit \<open>:q!\<close> exits with
  status 0 whatever the dirty flag is.
\<close>

theorem unforced_quit_is_refused_when_dirty:
  "(isDirty e \<longrightarrow>
      quit False e =
        Inr (e\<lparr>statusMessage := ''E37: No write since last change (add ! to override)''\<rparr>) \<and>
      runCommand W '':q'' e =
        Inr (e\<lparr>statusMessage := ''E37: No write since last change (add ! to override)'',
               currentCommand := [],
               screen := (screen e)\<lparr>shownStatus :=
                  ''E37: No write since last change (add ! to override)''\<rparr>,
               currentMode := MODE_NORMAL\<rparr>) \<and>
      (currentMode e = MODE_COMMAND_LINE \<and> currentCommand e = '':q''
         \<longrightarrow> (\<exists>e'. handleEvent W (pressKey KeyEnter) e = Inr e' \<and>
                  dataBuffer e' = dataBuffer e \<and> isDirty e' \<and>
                  statusMessage e' = ''E37: No write since last change (add ! to override)''))) \<and>
   quit True e = Inl (Exit 0) \<and>
   runCommand W '':q!'' e = Inl (Exit 0) \<and>
   (currentMode e = MODE_COMMAND_LINE \<and> currentCommand e = '':q!''
      \<longrightarrow> handleEvent W (pressKey KeyEnter) e = Inl (Exit 0))"
proof -
  have f: "runCommand W '':q!'' e = Inl (Exit 0)"
    by (simp add: runCommand_def slice_from_1 runCommand_dispatch_def Atoi_words quit_def)
  have g: "currentMode e = MODE_COMMAND_LINE \<and> currentCommand e = '':q!''
      \<longrightarrow> handleEvent W (pressKey KeyEnter) e = Inl (Exit 0)"
    using f by (simp add: handleEvent_def pressKey_def)
  have h: "isDirty e \<Longrightarrow> currentMode e = MODE_COMMAND_LINE \<and> currentCommand e = '':q''
         \<longrightarrow> (\<exists>e'. handleEvent W (pressKey KeyEnter) e = Inr e' \<and>
                  dataBuffer e' = dataBuffer e \<and> isDirty e' \<and>
                  statusMessage e' = ''E37: No write since last change (add ! to override)'')"
    using runCommand_q_dirty[of e W]
    by (simp add: handleEvent_def pressKey_def handleKeyCommandLineMode_def)
  show ?thesis
    using f g h runCommand_q_dirty[of e W] by (simp add: quit_def)
qed

theorem unforced_quit_is_refused_when_dirty_witness:
  "isDirty ((editorOn MODE_COMMAND_LINE [''abc''] \<lparr>X = 0, Y = 0\<rparr> 0 0 \<lparr>X = 10, Y = 5\<rparr>)
        \<lparr>currentCommand := '':q'', isDirty := True\<rparr>) \<and>
   runCommand saveSucceeds '':q''
     ((editorOn MODE_COMMAND_LINE [''abc''] \<lparr>X = 0, Y = 0\<rparr> 0 0 \<lparr>X = 10, Y = 5\<rparr>)
        \<lparr>currentCommand := '':q'', isDirty := True\<rparr>)
     = Inr ((editorOn MODE_NORMAL [''abc''] \<lparr>X = 0, Y = 0\<rparr> 0 0 \<lparr>X = 10, Y = 5\<rparr>)
        \<lparr>statusMessage := ''E37: No write since last change (add ! to override)'',
         screen := \<lparr>ScreenDim = \<lparr>X = 10, Y = 5\<rparr>, shownFrame = [],
                    shownCursor = \<lparr>X = 0, Y = 0\<rparr>,
                    shownStatus = ''E37: No write since last change (add ! to override)''\<rparr>,
         isDirty := True\<rparr>) \<and>
   handleEvent saveSucceeds (pressKey KeyEnter)
     ((editorOn MODE_COMMAND_LINE [''abc''] \<lparr>X = 0, Y = 0\<rparr> 0 0 \<lparr>X = 10, Y = 5\<rparr>)
        \<lparr>currentCommand := '':q!'', isDirty := True\<rparr>) = Inl (Exit 0)"
  using unforced_quit_is_refused_when_dirty
    [of "(editorOn MODE_COMMAND_LINE [''abc''] \<lparr>X = 0, Y = 0\<rparr> 0 0 \<lparr>X = 10, Y = 5\<rparr>)
        \<lparr>currentCommand := '':q'', isDirty := True\<rparr>" saveSucceeds]
    unforced_quit_is_refused_when_dirty
    [of "(editorOn MODE_COMMAND_LINE [''abc''] \<lparr>X = 0, Y = 0\<rparr> 0 0 \<lparr>X = 10, Y = 5\<rparr>)
        \<lparr>currentCommand := '':q!'', isDirty := True\<rparr>" saveSucceeds]
  by (simp add: editorOn_def)

text \<open>
  Claim C7, as amended. On write-and-quit (\<open>:wq\<close> and \<open>:x\<close>) the command ends
  the process with exit status 0 for every editor and whatever the save of the
  persistence layer returns, success or failure: a failed save does not block the quit.
\<close>

theorem write_quit_exits_whatever_the_save_returns:
  "runCommand W '':wq'' e = Inl (Exit 0) \<and> runCommand W '':x'' e = Inl (Exit 0)"
  by (simp add: runCommand_def slice_from_1 runCommand_dispatch_def Atoi_words)

theorem write_quit_exits_whatever_the_save_returns_witness:
  "runCommand saveFails '':x''
     ((editorOn MODE_COMMAND_LINE [''unsaved text''] \<lparr>X = 0, Y = 0\<rparr> 0 0 \<lparr>X = 10, Y = 5\<rparr>)
        \<lparr>currentCommand := '':x'', isDirty := True\<rparr>) = Inl (Exit 0)"
  using write_quit_exits_whatever_the_save_returns
    [of saveFails "(editorOn MODE_COMMAND_LINE [''unsaved text''] \<lparr>X = 0, Y = 0\<rparr> 0 0 \<lparr>X = 10, Y = 5\<rparr>)
        \<lparr>currentCommand := '':x'', isDirty := True\<rparr>"]
  by simp

text \<open>
  Claim C7 as stated fails: with a dirty buffer and a save that fails, \<open>Enter\<close> on
  \<open>:wq\<close> ends the process with status 0.
\<close>

theorem failed_save_does_not_block_quit_counterexample:
  "isDirty ((editorOn MODE_COMMAND_LINE [''unsaved text''] \<lparr>X = 0, Y = 0\<rparr> 0 0 \<lparr>X = 10, Y = 5\<rparr>)
        \<lparr>currentCommand := '':wq'', isDirty := True\<rparr>) \<and>
   \<not> saveFails ''notes.txt'' [''unsaved text''] \<and>
   handleEvent saveFails (pressKey KeyEnter)
     ((editorOn MODE_COMMAND_LINE [''unsaved text''] \<lparr>X = 0, Y = 0\<rparr> 0 0 \<lparr>X = 10, Y = 5\<rparr>)
        \<lparr>currentCommand := '':wq'', isDirty := True\<rparr>) = Inl (Exit 0)"
  by (simp add: editorOn_def saveFails_def handleEvent_def pressKey_def runCommand_def
      slice_from_1 runCommand_dispatch_def Atoi_words)

text \<open>
  Unrecognized commands after a leading character. Let the accumulated command be one
  character (the colon) followed by a text \<open>cmd\<close> that \<open>strconv.Atoi\<close> rejects (it
  is not an optional sign followed by decimal digits in the 64-bit range) and that is
  none of \<open>q\<close>, \<open>q!\<close>, \<open>wq\<close>, \<open>x\<close>. Then \<open>Enter\<close> in Command-line mode
  returns normally, leaves the buffer, the cursor and every other field unchanged, clears
  the command string, shows the status message and returns to Normal mode. This covers
  the lone colon, whose \<open>cmd\<close> is empty.
\<close>

theorem unknown_command_is_ignored:
  assumes "Atoi cmd = None" and "cmd \<noteq> ''q''" and "cmd \<noteq> ''q!''" and "cmd \<noteq> ''wq''"
    and "cmd \<noteq> ''x''"
  shows "runCommand W (c # cmd) e =
           Inr (e\<lparr>currentCommand := [],
                  screen := (screen e)\<lparr>shownStatus := statusMessage e\<rparr>,
                  currentMode := MODE_NORMAL\<rparr>) \<and>
         (currentMode e = MODE_COMMAND_LINE \<and> currentCommand e = c # cmd \<and>
          EventKind ev = ''KEY_PRESS'' \<and> Value ev = KeyEnter
            \<longrightarrow> handleEvent W ev e =
                  Inr (e\<lparr>currentCommand := [],
                         screen := (screen e)\<lparr>shownStatus := statusMessage e\<rparr>,
                         currentMode := MODE_NORMAL\<rparr>))"
proof -
  have d: "runCommand_dispatch W cmd e = Inr e"
    using assms by (simp add: runCommand_dispatch_def)
  have r: "runCommand W (c # cmd) e =
           Inr (e\<lparr>currentCommand := [],
                  screen := (screen e)\<lparr>shownStatus := statusMessage e\<rparr>,
                  currentMode := MODE_NORMAL\<rparr>)"
    by (simp add: runCommand_def slice_from_1 d status_text_after_clear)
  show ?thesis
    using r by (simp add: handleEvent_def handleKeyCommandLineMode_def)
qed

theorem unknown_command_is_ignored_witness:
  "Atoi ''help'' = None \<and> Atoi [] = None \<and>
   handleEvent saveSucceeds (pressKey KeyEnter)
     ((editorOn MODE_COMMAND_LINE [''a'', ''b''] \<lparr>X = 0, Y = 1\<rparr> 0 1 \<lparr>X = 10, Y = 5\<rparr>)
        \<lparr>currentCommand := '':help''\<rparr>)
     = Inr (editorOn MODE_NORMAL [''a'', ''b''] \<lparr>X = 0, Y = 1\<rparr> 0 1 \<lparr>X = 10, Y = 5\<rparr>) \<and>
   handleEvent saveSucceeds (pressKey KeyEnter)
     ((editorOn MODE_COMMAND_LINE [''a'', ''b''] \<lparr>X = 0, Y = 1\<rparr> 0 1 \<lparr>X = 10, Y = 5\<rparr>)
        \<lparr>currentCommand := '':''\<rparr>)
     = Inr (editorOn MODE_NORMAL [''a'', ''b''] \<lparr>X = 0, Y = 1\<rparr> 0 1 \<lparr>X = 10, Y = 5\<rparr>)"
proof -
  have a: "Atoi ''help'' = None" by (simp add: Atoi_def is_digit_def)
  have b: "Atoi [] = None" by (simp add: Atoi_def)
  from unknown_command_is_ignored[OF a, of saveSucceeds "CHR '':''"
      "(editorOn MODE_COMMAND_LINE [''a'', ''b''] \<lparr>X = 0, Y = 1\<rparr> 0 1 \<lparr>X = 10, Y = 5\<rparr>)
        \<lparr>currentCommand := '':help''\<rparr>" "pressKey KeyEnter"]
  have c: "handleEvent saveSucceeds (pressKey KeyEnter)
     ((editorOn MODE_COMMAND_LINE [''a'', ''b''] \<lparr>X = 0, Y = 1\<rparr> 0 1 \<lparr>X = 10, Y = 5\<rparr>)
        \<lparr>currentCommand := '':help''\<rparr>)
     = Inr (editorOn MODE_NORMAL [''a'', ''b''] \<lparr>X = 0, Y = 1\<rparr> 0 1 \<lparr>X = 10, Y = 5\<rparr>)"
    by (simp add: editorOn_def pressKey_def)
  from unknown_command_is_ignored[OF b, of saveSucceeds "CHR '':''"
      "(editorOn MODE_COMMAND_LINE [''a'', ''b''] \<lparr>X = 0, Y = 1\<rparr> 0 1 \<lparr>X = 10, Y = 5\<rparr>)
        \<lparr>currentCommand := '':''\<rparr>" "pressKey KeyEnter"]
  have d: "handleEvent saveSucceeds (pressKey KeyEnter)
     ((editorOn MODE_COMMAND_LINE [''a'', ''b''] \<lparr>X = 0, Y = 1\<rparr> 0 1 \<lparr>X = 10, Y = 5\<rparr>)
        \<lparr>currentCommand := '':''\<rparr>)
     = Inr (editorOn MODE_NORMAL [''a'', ''b''] \<lparr>X = 0, Y = 1\<rparr> 0 1 \<lparr>X = 10, Y = 5\<rparr>)"
    by (simp add: editorOn_def pressKey_def)
  from a b c d show ?thesis by (intro conjI)
qed

text \<open>
  Line numbers are recognised by \<open>strconv.Atoi\<close>, which accepts a sign: \<open>+2\<close> is not
  a digit string and not a quit command, yet \<open>Enter\<close> on \<open>:+2\<close> moves the cursor
  from row 0 to row 1.
\<close>

theorem signed_number_is_a_line_number:
  "\<not> list_all is_digit ''+2'' \<and>
   cursorPos ((editorOn MODE_COMMAND_LINE [''a'', ''b'', ''c''] \<lparr>X = 0, Y = 0\<rparr> 0 2 \<lparr>X = 10, Y = 5\<rparr>)
        \<lparr>currentCommand := '':+2''\<rparr>) = \<lparr>X = 0, Y = 0\<rparr> \<and>
   map_sum id cursorPos
     (handleEvent saveSucceeds (pressKey KeyEnter)
        ((editorOn MODE_COMMAND_LINE [''a'', ''b'', ''c''] \<lparr>X = 0, Y = 0\<rparr> 0 2 \<lparr>X = 10, Y = 5\<rparr>)
           \<lparr>currentCommand := '':+2''\<rparr>)) = Inr \<lparr>X = 0, Y = 1\<rparr>"
  by (simp add: eval_simps)

section \<open>Properties of Insert mode\<close>

text \<open>
  Claim C10. \<open>Backspace\<close> in Insert mode with the cursor at row 0, column 0 returns the
  editor with the dirty flag set and nothing else changed: buffer and cursor are the
  same. An unforced quit after it is refused with the unsaved-changes message.
\<close>

theorem backspace_at_origin_only_sets_dirty:
  assumes "X (cursorPos e) = 0" and "Y (cursorPos e) = 0"
    and "Value ev = KeyBackspace \<or> Value ev = KeyBackspace2"
  shows "handleKeyInsertMode ev e = Inr (e\<lparr>isDirty := True\<rparr>) \<and>
         (currentMode e = MODE_INSERT \<and> EventKind ev = ''KEY_PRESS''
            \<longrightarrow> handleEvent W ev e = Inr (e\<lparr>isDirty := True\<rparr>)) \<and>
         dataBuffer (e\<lparr>isDirty := True\<rparr>) = dataBuffer e \<and>
         cursorPos (e\<lparr>isDirty := True\<rparr>) = cursorPos e \<and>
         isDirty (e\<lparr>isDirty := True\<rparr>) \<and>
         quit False (e\<lparr>isDirty := True\<rparr>) =
           Inr (e\<lparr>isDirty := True,
                  statusMessage := ''E37: No write since last change (add ! to override)''\<rparr>) \<and>
         runCommand W '':q'' (e\<lparr>isDirty := True\<rparr>) =
           Inr (e\<lparr>isDirty := True,
                  statusMessage := ''E37: No write since last change (add ! to override)'',
                  currentCommand := [],
                  screen := (screen e)\<lparr>shownStatus :=
                     ''E37: No write since last change (add ! to override)''\<rparr>,
                  currentMode := MODE_NORMAL\<rparr>)"
proof -
  have a: "handleKeyInsertMode ev e = Inr (e\<lparr>isDirty := True\<rparr>)"
    using assms by (auto simp: handleKeyInsertMode_def)
  have b: "currentMode e = MODE_INSERT \<and> EventKind ev = ''KEY_PRESS''
            \<longrightarrow> handleEvent W ev e = Inr (e\<lparr>isDirty := True\<rparr>)"
    using assms(3) a by (auto simp: handleEvent_def not_arrow_key)
  have c: "quit False (e\<lparr>isDirty := True\<rparr>) =
           Inr (e\<lparr>isDirty := True,
                  statusMessage := ''E37: No write since last change (add ! to override)''\<rparr>)"
    by (simp add: quit_def)
  have d: "runCommand W '':q'' (e\<lparr>isDirty := True\<rparr>) =
           Inr (e\<lparr>isDirty := True,
                  statusMessage := ''E37: No write since last change (add ! to override)'',
                  currentCommand := [],
                  screen := (screen e)\<lparr>shownStatus :=
                     ''E37: No write since last change (add ! to override)''\<rparr>,
                  currentMode := MODE_NORMAL\<rparr>)"
    using runCommand_q_dirty[of "e\<lparr>isDirty := True\<rparr>" W] by simp
  from a b c d show ?thesis by simp
qed

theorem backspace_at_origin_only_sets_dirty_witness:
  "X (cursorPos (editorOn MODE_INSERT [''abc''] \<lparr>X = 0, Y = 0\<rparr> 0 0 \<lparr>X = 10, Y = 5\<rparr>)) = 0 \<and>
   Y (cursorPos (editorOn MODE_INSERT [''abc''] \<lparr>X = 0, Y = 0\<rparr> 0 0 \<lparr>X = 10, Y = 5\<rparr>)) = 0 \<and>
   currentMode (editorOn MODE_INSERT [''abc''] \<lparr>X = 0, Y = 0\<rparr> 0 0 \<lparr>X = 10, Y = 5\<rparr>) = MODE_INSERT \<and>
   \<not> isDirty (editorOn MODE_INSERT [''abc''] \<lparr>X = 0, Y = 0\<rparr> 0 0 \<lparr>X = 10, Y = 5\<rparr>) \<and>
   handleEvent saveSucceeds (pressKey KeyBackspace)
       (editorOn MODE_INSERT [''abc''] \<lparr>X = 0, Y = 0\<rparr> 0 0 \<lparr>X = 10, Y = 5\<rparr>)
     = Inr ((editorOn MODE_INSERT [''abc''] \<lparr>X = 0, Y = 0\<rparr> 0 0 \<lparr>X = 10, Y = 5\<rparr>)\<lparr>isDirty := True\<rparr>)"
  using backspace_at_origin_only_sets_dirty
    [of "editorOn MODE_INSERT [''abc''] \<lparr>X = 0, Y = 0\<rparr> 0 0 \<lparr>X = 10, Y = 5\<rparr>"
        "pressKey KeyBackspace" saveSucceeds]
  by (simp add: editorOn_def pressKey_def)

subsection \<open>The redraw keeps buffer and cursor\<close>

lemma fillTextFrameFromTop_result:
  "fillTextFrameFromTop e = Inr (fr, e') \<Longrightarrow> \<exists>i. e' = e\<lparr>lastLineInFrame := i\<rparr>"
  unfolding fillTextFrameFromTop_def by (auto split: if_splits sum.splits prod.splits)

lemma renderFrame_result:
  "renderFrame e = Inr (fr, e') \<Longrightarrow> \<exists>i. e' = e\<lparr>lastLineInFrame := i\<rparr>"
  unfolding renderFrame_def
  by (auto split: sum.splits prod.splits dest: fillTextFrameFromTop_result)

lemma renderFrame_keeps:
  assumes "renderFrame e = Inr (fr, e')"
  shows "dataBuffer e' = dataBuffer e \<and> cursorPos e' = cursorPos e \<and> isDirty e' = isDirty e \<and>
    currentMode e' = currentMode e \<and> firstLineInFrame e' = firstLineInFrame e \<and>
    screen e' = screen e"
proof -
  from renderFrame_result[OF assms] have "\<exists>i. e' = e\<lparr>lastLineInFrame := i\<rparr>" .
  then show ?thesis
  proof
    fix i assume "e' = e\<lparr>lastLineInFrame := i\<rparr>"
    then show ?thesis by simp
  qed
qed

lemma drawTextFrame_keeps:
  assumes "drawTextFrame e = Inr e'"
  shows "dataBuffer e' = dataBuffer e \<and> cursorPos e' = cursorPos e \<and> isDirty e' = isDirty e \<and>
    currentMode e' = currentMode e \<and> firstLineInFrame e' = firstLineInFrame e \<and>
    ScreenDim (screen e') = ScreenDim (screen e)"
proof -
  from assms obtain fr e1 where r: "renderFrame e = Inr (fr, e1)" and e': "e' = DisplayTextFrame fr e1"
    unfolding drawTextFrame_def by (auto split: sum.splits prod.splits)
  show ?thesis using renderFrame_keeps[OF r] by (simp add: e' DisplayTextFrame_def)
qed

lemma syncCursor_keeps:
  assumes "syncCursor e = Inr e'"
  shows "dataBuffer e' = dataBuffer e \<and> cursorPos e' = cursorPos e \<and> isDirty e' = isDirty e \<and>
    currentMode e' = currentMode e \<and> firstLineInFrame e' = firstLineInFrame e \<and>
    ScreenDim (screen e') = ScreenDim (screen e)"
proof -
  from assms obtain pos e1 where d: "drawTextFrame e = Inr e1" and e': "e' = DisplayCursor pos e1"
    unfolding syncCursor_def by (auto split: sum.splits)
  show ?thesis using drawTextFrame_keeps[OF d] by (simp add: e' DisplayCursor_def)
qed

lemma syncTextFrame_keeps:
  assumes "syncTextFrame d e = Inr e'"
  shows "dataBuffer e' = dataBuffer e \<and> cursorPos e' = cursorPos e \<and> isDirty e' = isDirty e \<and>
    currentMode e' = currentMode e \<and> firstLineInFrame e' = firstLineInFrame e \<and>
    ScreenDim (screen e') = ScreenDim (screen e)"
proof -
  from assms obtain e1 where d1: "drawTextFrame e = Inr e1"
    and r: "e' = e1 \<or> syncCursor e1 = Inr e'"
    unfolding syncTextFrame_def by (auto split: sum.splits if_splits)
  from r show ?thesis
  proof
    assume "e' = e1"
    then show ?thesis using drawTextFrame_keeps[OF d1] by simp
  next
    assume "syncCursor e1 = Inr e'"
    from syncCursor_keeps[OF this] drawTextFrame_keeps[OF d1] show ?thesis by simp
  qed
qed

subsection \<open>Merging a line into the previous one\<close>

lemma index_nat: "k < length xs \<Longrightarrow> index xs (int k) = Inr (xs ! k)"
  by (simp add: index_def)

lemma assign_nat: "k < length xs \<Longrightarrow> assign xs (int k) v = Inr (xs[k := v])"
  by (simp add: assign_def)

lemma take_Suc_update: "k < length xs \<Longrightarrow> take (Suc k) (xs[k := v]) = take k xs @ [v]"
  by (simp add: take_Suc_conv_app_nth)

lemma merged_nth_before:
  assumes "0 < r" "r < length buf" "k < r - 1"
  shows "(take (r - 1) buf @ [buf ! (r - 1) @ buf ! r] @ drop (Suc r) buf) ! k = buf ! k"
  using assms by (simp add: nth_append)

lemma merged_nth_at:
  assumes "0 < r" "r < length buf"
  shows "(take (r - 1) buf @ [buf ! (r - 1) @ buf ! r] @ drop (Suc r) buf) ! (r - 1) = buf ! (r - 1) @ buf ! r"
  using assms by (simp add: nth_append)

lemma merged_nth_after:
  assumes "0 < r" "r < k" "k < length buf"
  shows "(take (r - 1) buf @ [buf ! (r - 1) @ buf ! r] @ drop (Suc r) buf) ! (k - 1) = buf ! k"
proof -
  have a: "length (take (r - 1) buf) = r - 1" using assms by simp
  have b: "k - 1 - (r - 1) = Suc (k - Suc r)" using assms by simp
  have c: "Suc r + (k - Suc r) = k" using assms by simp
  have d: "\<not> k - 1 < length (take (r - 1) buf)" using assms by simp
  have "(take (r - 1) buf @ [buf ! (r - 1) @ buf ! r] @ drop (Suc r) buf) ! (k - 1)
        = ([buf ! (r - 1) @ buf ! r] @ drop (Suc r) buf) ! (k - 1 - length (take (r - 1) buf))"
    using d by (simp only: nth_append if_False)
  also have "\<dots> = ([buf ! (r - 1) @ buf ! r] @ drop (Suc r) buf) ! Suc (k - Suc r)"
    using a b by simp
  also have "\<dots> = drop (Suc r) buf ! (k - Suc r)" by simp
  also have "\<dots> = buf ! k" using assms c by (simp del: drop_Suc)
  finally show ?thesis .
qed

lemma mergeLoop_step_skip:
  "mergeLoop buf (int r) (l # rest) (int r) nb j = mergeLoop buf (int r) rest (int (Suc r)) nb j"
  by (simp add: add.commute)

lemma mergeLoop_step_prev:
  assumes "Suc k = r" "r < length buf" "j < length nb"
  shows "mergeLoop buf (int r) (l # rest) (int k) nb (int j)
         = mergeLoop buf (int r) rest (int (Suc k)) (nb[j := l @ buf ! r]) (int (Suc j))"
proof -
  have a: "int k \<noteq> int r" "int k = int r - 1" using assms(1) by auto
  have "mergeLoop buf (int r) (l # rest) (int r - 1) nb (int j)
         = mergeLoop buf (int r) rest (int r - 1 + 1) (nb[j := l @ buf ! r]) (int j + 1)"
    by (simp add: index_nat[OF assms(2)] assign_nat[OF assms(3)])
  moreover have "int r - 1 + 1 = int (Suc k)" "int j + 1 = int (Suc j)" using assms(1) by auto
  ultimately show ?thesis using a(2) by simp
qed

lemma mergeLoop_step_other:
  assumes "k \<noteq> r" "Suc k \<noteq> r" "j < length nb"
  shows "mergeLoop buf (int r) (l # rest) (int k) nb (int j)
         = mergeLoop buf (int r) rest (int (Suc k)) (nb[j := l]) (int (Suc j))"
proof -
  have a: "(int k = int r) = False" "(int k = int r - 1) = False" using assms(1,2) by auto
  show ?thesis
    by (subst mergeLoop.simps) (simp only: a if_False if_True
        assign_nat[OF assms(3)] sum.case of_nat_Suc add.commute)
qed

lemma mergeLoop_general:
  fixes buf :: "string list"
  assumes r: "0 < r" "r < length buf"
    and T: "length T + 1 = length buf"
      "\<And>i. i < r - 1 \<Longrightarrow> T ! i = buf ! i"
      "T ! (r - 1) = buf ! (r - 1) @ buf ! r"
      "\<And>i. r < i \<Longrightarrow> i < length buf \<Longrightarrow> T ! (i - 1) = buf ! i"
  shows "k \<le> length buf \<Longrightarrow> length nb = length T \<Longrightarrow> j = (if k \<le> r then k else k - 1) \<Longrightarrow>
         mergeLoop buf (int r) (drop k buf) (int k) nb (int j) = Inr (take j nb @ drop j T)"
proof (induction "length buf - k" arbitrary: k nb j)
  case 0
  then have "k = length buf" by simp
  with r 0 T(1) show ?case by simp
next
  case (Suc d)
  from Suc have k: "k < length buf" by simp
  have dk: "drop k buf = buf ! k # drop (Suc k) buf" using k by (simp add: Cons_nth_drop_Suc)
  have IH: "\<And>nb' j'. length nb' = length T \<Longrightarrow> j' = (if Suc k \<le> r then Suc k else k) \<Longrightarrow>
     mergeLoop buf (int r) (drop (Suc k) buf) (int (Suc k)) nb' (int j') = Inr (take j' nb' @ drop j' T)"
  proof -
    fix nb' :: "string list" and j'
    assume a: "length nb' = length T" "j' = (if Suc k \<le> r then Suc k else k)"
    have "d = length buf - Suc k" using Suc.hyps(2) by simp
    moreover have "Suc k \<le> length buf" using k by simp
    moreover note a(1)
    moreover have "j' = (if Suc k \<le> r then Suc k else Suc k - 1)" using a(2) by simp
    ultimately show "mergeLoop buf (int r) (drop (Suc k) buf) (int (Suc k)) nb' (int j')
        = Inr (take j' nb' @ drop j' T)"
      by (rule Suc.hyps(1))
  qed
  have ik: "int k + 1 = int (Suc k)" by simp
  consider (eq) "k = r" | (prev) "Suc k = r" | (lt) "Suc k < r" | (gt) "r < k" by linarith
  then show ?case
  proof cases
    case eq
    then have j: "j = r" using Suc.prems by simp
    have "mergeLoop buf (int r) (drop k buf) (int k) nb (int j)
        = mergeLoop buf (int r) (drop (Suc k) buf) (int (Suc k)) nb (int j)"
      using dk by (simp only: eq mergeLoop_step_skip)
    also have "\<dots> = Inr (take j nb @ drop j T)"
      using Suc.prems(2) eq j by (intro IH) simp_all
    finally show ?thesis .
  next
    case prev
    then have j: "j = k" using Suc.prems by simp
    have kr: "k \<noteq> r" "int k = int r - 1" using prev by simp_all
    have kn: "k < length nb" using prev r Suc.prems T(1) by simp
    have Tk: "T ! k = buf ! k @ buf ! r" using T(3) prev by auto
    have "mergeLoop buf (int r) (drop k buf) (int k) nb (int k)
        = mergeLoop buf (int r) (drop (Suc k) buf) (int (Suc k)) (nb[k := buf ! k @ buf ! r]) (int (Suc k))"
      unfolding dk using prev r(2) kn by (rule mergeLoop_step_prev)
    also have "\<dots> = Inr (take (Suc k) (nb[k := buf ! k @ buf ! r]) @ drop (Suc k) T)"
      using Suc.prems(2) prev by (intro IH) simp_all
    also have "take (Suc k) (nb[k := buf ! k @ buf ! r]) @ drop (Suc k) T = take k nb @ drop k T"
      using kn Suc.prems(2) Tk Cons_nth_drop_Suc[of k T] by (simp add: take_Suc_update)
    finally show ?thesis using j by simp
  next
    case lt
    then have j: "j = k" using Suc.prems by simp
    have kr2: "k \<noteq> r" "Suc k \<noteq> r" using lt by simp_all
    have kn: "k < length nb" using lt r Suc.prems T(1) by simp
    have Tk: "T ! k = buf ! k" using T(2)[of k] lt by simp
    have "mergeLoop buf (int r) (drop k buf) (int k) nb (int k)
        = mergeLoop buf (int r) (drop (Suc k) buf) (int (Suc k)) (nb[k := buf ! k]) (int (Suc k))"
      unfolding dk using kr2 kn by (rule mergeLoop_step_other)
    also have "\<dots> = Inr (take (Suc k) (nb[k := buf ! k]) @ drop (Suc k) T)"
      using Suc.prems(2) lt by (intro IH) simp_all
    also have "take (Suc k) (nb[k := buf ! k]) @ drop (Suc k) T = take k nb @ drop k T"
      using kn Suc.prems(2) Tk Cons_nth_drop_Suc[of k T] by (simp add: take_Suc_update)
    finally show ?thesis using j by simp
  next
    case gt
    then have j: "j = k - 1" using Suc.prems by simp
    have kr: "k \<noteq> r" "int k \<noteq> int r - 1" "Suc (k - 1) = k" using gt by simp_all
    have kn: "k - 1 < length nb" using gt k Suc.prems T(1) by simp
    have Tk: "T ! (k - 1) = buf ! k" using T(4)[of k] gt k by simp
    have kr2: "k \<noteq> r" "Suc k \<noteq> r" using gt by simp_all
    have "mergeLoop buf (int r) (drop k buf) (int k) nb (int (k - 1))
        = mergeLoop buf (int r) (drop (Suc k) buf) (int (Suc k)) (nb[k - 1 := buf ! k]) (int (Suc (k - 1)))"
      unfolding dk using kr2 kn by (rule mergeLoop_step_other)
    also have "Suc (k - 1) = k" using gt by simp
    also have "mergeLoop buf (int r) (drop (Suc k) buf) (int (Suc k)) (nb[k - 1 := buf ! k]) (int k)
         = Inr (take k (nb[k - 1 := buf ! k]) @ drop k T)"
      using Suc.prems(2) gt by (intro IH) simp_all
    also have "take k (nb[k - 1 := buf ! k]) @ drop k T = take (k - 1) nb @ drop (k - 1) T"
      using kn Suc.prems(2) Tk take_Suc_update[of "k - 1" nb "buf ! k"] Cons_nth_drop_Suc[of "k - 1" T] kr(3)
      by simp
    finally show ?thesis using j by simp
  qed
qed

lemma backspaceMergeLines_eq:
  assumes "0 < Y (cursorPos e)" "Y (cursorPos e) < int (length (dataBuffer e))"
  shows "backspaceMergeLines e =
     Inr (e\<lparr>cursorPos := \<lparr>X = int (length (dataBuffer e ! (nat (Y (cursorPos e)) - 1))),
                         Y = Y (cursorPos e) - 1\<rparr>,
            dataBuffer := take (nat (Y (cursorPos e)) - 1) (dataBuffer e)
               @ [dataBuffer e ! (nat (Y (cursorPos e)) - 1) @ dataBuffer e ! nat (Y (cursorPos e))]
               @ drop (Suc (nat (Y (cursorPos e)))) (dataBuffer e)\<rparr>)"
proof -
  define r where "r = nat (Y (cursorPos e))"
  define buf where "buf = dataBuffer e"
  have r: "0 < r" "r < length buf" "Y (cursorPos e) = int r"
    using assms by (simp_all add: r_def buf_def)
  let ?T = "take (r - 1) buf @ [buf ! (r - 1) @ buf ! r] @ drop (Suc r) buf"
  have lenT: "length ?T + 1 = length buf" using r by simp
  have "mergeLoop buf (int r) (drop 0 buf) (int 0) (replicate (length buf - 1) []) (int 0)
      = Inr (take 0 (replicate (length buf - 1) []) @ drop 0 ?T)"
    using r(1,2) lenT
  proof (rule mergeLoop_general)
    show "\<And>i. i < r - 1 \<Longrightarrow> ?T ! i = buf ! i" by (rule merged_nth_before[OF r(1,2)])
    show "?T ! (r - 1) = buf ! (r - 1) @ buf ! r" by (rule merged_nth_at[OF r(1,2)])
    show "\<And>i. r < i \<Longrightarrow> i < length buf \<Longrightarrow> ?T ! (i - 1) = buf ! i" by (rule merged_nth_after[OF r(1)])
    show "0 \<le> length buf" by simp
    show "length (replicate (length buf - 1) ([]::string)) = length ?T" using r by simp
    show "0 = (if 0 \<le> r then 0 else 0 - 1)" by simp
  qed
  then have m: "mergeLoop buf (int r) buf 0 (replicate (length buf - 1) []) 0 = Inr ?T" by simp
  have n: "nat (int (length buf) - 1) = length buf - 1" "buf \<noteq> []" using r by auto
  have i: "index buf (int r - 1) = Inr (buf ! (r - 1))"
    using r by (simp add: index_def nat_diff_distrib')
  show ?thesis
    unfolding backspaceMergeLines_def getLinesCount_def
    using r m i n by (simp add: buf_def[symmetric] r_def[symmetric])
qed

text \<open>
  What \<open>Backspace\<close> at the start of a line hands to the redraw. With at least two
  lines and the cursor at column 0 of a row that is not the first, it is the editor whose
  buffer has the row's content appended to the previous line and the row removed (the
  rows below move up by one), and whose cursor is on the previous row at the length that
  line had before; the window is left as it was. The redraw changes neither buffer nor
  cursor, so whenever the key press returns, buffer and cursor are these.
\<close>

theorem backspace_at_line_start_merges:
  assumes "X (cursorPos e) = 0" and "0 < Y (cursorPos e)"
    and "Y (cursorPos e) < getLinesCount e"
    and "Value ev = KeyBackspace \<or> Value ev = KeyBackspace2"
  shows "handleKeyInsertMode ev e =
           syncTextFrame False
             (e\<lparr>isDirty := True,
                cursorPos := \<lparr>X = int (length (dataBuffer e ! (nat (Y (cursorPos e)) - 1))),
                              Y = Y (cursorPos e) - 1\<rparr>,
                dataBuffer := take (nat (Y (cursorPos e)) - 1) (dataBuffer e)
                  @ [dataBuffer e ! (nat (Y (cursorPos e)) - 1) @ dataBuffer e ! nat (Y (cursorPos e))]
                  @ drop (Suc (nat (Y (cursorPos e)))) (dataBuffer e)\<rparr>) \<and>
         (\<forall>e'. handleKeyInsertMode ev e = Inr e' \<longrightarrow>
            dataBuffer e' = take (nat (Y (cursorPos e)) - 1) (dataBuffer e)
                  @ [dataBuffer e ! (nat (Y (cursorPos e)) - 1) @ dataBuffer e ! nat (Y (cursorPos e))]
                  @ drop (Suc (nat (Y (cursorPos e)))) (dataBuffer e) \<and>
            cursorPos e' = \<lparr>X = int (length (dataBuffer e ! (nat (Y (cursorPos e)) - 1))),
                              Y = Y (cursorPos e) - 1\<rparr> \<and>
            length (dataBuffer e') + 1 = length (dataBuffer e))"
proof -
  let ?m = "e\<lparr>isDirty := True,
                cursorPos := \<lparr>X = int (length (dataBuffer e ! (nat (Y (cursorPos e)) - 1))),
                              Y = Y (cursorPos e) - 1\<rparr>,
                dataBuffer := take (nat (Y (cursorPos e)) - 1) (dataBuffer e)
                  @ [dataBuffer e ! (nat (Y (cursorPos e)) - 1) @ dataBuffer e ! nat (Y (cursorPos e))]
                  @ drop (Suc (nat (Y (cursorPos e)))) (dataBuffer e)\<rparr>"
  have m: "backspaceMergeLines (e\<lparr>isDirty := True\<rparr>) = Inr ?m"
    using backspaceMergeLines_eq[of "e\<lparr>isDirty := True\<rparr>"] assms(2,3)
    by (simp add: getLinesCount_def)
  have h: "handleKeyInsertMode ev e = syncTextFrame False ?m"
    using assms(1,2,4) m by (auto simp: handleKeyInsertMode_def)
  have len: "length (dataBuffer ?m) + 1 = length (dataBuffer e)"
    using assms(2,3) by (simp add: getLinesCount_def)
  show ?thesis
  proof (intro conjI allI impI)
    show "handleKeyInsertMode ev e = syncTextFrame False ?m" by (rule h)
  next
    fix e' assume "handleKeyInsertMode ev e = Inr e'"
    then have s: "syncTextFrame False ?m = Inr e'" using h by simp
    from syncTextFrame_keeps[OF s]
    show "dataBuffer e' = take (nat (Y (cursorPos e)) - 1) (dataBuffer e)
                  @ [dataBuffer e ! (nat (Y (cursorPos e)) - 1) @ dataBuffer e ! nat (Y (cursorPos e))]
                  @ drop (Suc (nat (Y (cursorPos e)))) (dataBuffer e)"
      by simp
    from syncTextFrame_keeps[OF s]
    show "cursorPos e' = \<lparr>X = int (length (dataBuffer e ! (nat (Y (cursorPos e)) - 1))),
                              Y = Y (cursorPos e) - 1\<rparr>"
      by simp
    from syncTextFrame_keeps[OF s] len
    show "length (dataBuffer e') + 1 = length (dataBuffer e)" by simp
  qed
qed

text \<open>
  On \<open>["abc", "def"]\<close> with the cursor at row 1, column 0 and the window starting at
  row 0, on a grid 10 wide and 5 high, the result is \<open>["abcdef"]\<close> with the cursor at
  row 0, column 3.
\<close>

theorem backspace_at_line_start_merges_example:
  "X (cursorPos (editorOn MODE_INSERT [''abc'', ''def''] \<lparr>X = 0, Y = 1\<rparr> 0 1 \<lparr>X = 10, Y = 5\<rparr>)) = 0 \<and>
   0 < Y (cursorPos (editorOn MODE_INSERT [''abc'', ''def''] \<lparr>X = 0, Y = 1\<rparr> 0 1 \<lparr>X = 10, Y = 5\<rparr>)) \<and>
   Y (cursorPos (editorOn MODE_INSERT [''abc'', ''def''] \<lparr>X = 0, Y = 1\<rparr> 0 1 \<lparr>X = 10, Y = 5\<rparr>))
     < getLinesCount (editorOn MODE_INSERT [''abc'', ''def''] \<lparr>X = 0, Y = 1\<rparr> 0 1 \<lparr>X = 10, Y = 5\<rparr>) \<and>
   map_sum id dataBuffer
     (handleKeyInsertMode (pressKey KeyBackspace)
        (editorOn MODE_INSERT [''abc'', ''def''] \<lparr>X = 0, Y = 1\<rparr> 0 1 \<lparr>X = 10, Y = 5\<rparr>))
     = Inr [''abcdef''] \<and>
   map_sum id cursorPos
     (handleKeyInsertMode (pressKey KeyBackspace)
        (editorOn MODE_INSERT [''abc'', ''def''] \<lparr>X = 0, Y = 1\<rparr> 0 1 \<lparr>X = 10, Y = 5\<rparr>))
     = Inr \<lparr>X = 3, Y = 0\<rparr>"
proof -
  let ?e = "editorOn MODE_INSERT [''abc'', ''def''] \<lparr>X = 0, Y = 1\<rparr> 0 1 \<lparr>X = 10, Y = 5\<rparr>"
  have a: "X (cursorPos ?e) = 0" by (simp add: editorOn_def)
  have b: "0 < Y (cursorPos ?e)" by (simp add: editorOn_def)
  have c: "Y (cursorPos ?e) < getLinesCount ?e" by (simp add: editorOn_def getLinesCount_def)
  have d: "Value (pressKey KeyBackspace) = KeyBackspace \<or> Value (pressKey KeyBackspace) = KeyBackspace2"
    by (simp add: pressKey_def)
  note t = backspace_at_line_start_merges[OF a b c d, THEN conjunct1]
  have u: "handleKeyInsertMode (pressKey KeyBackspace) ?e = syncTextFrame False
     (?e\<lparr>isDirty := True, cursorPos := \<lparr>X = 3, Y = 0\<rparr>, dataBuffer := [''abcdef'']\<rparr>)"
    using t by (simp add: editorOn_def)
  have w1: "map_sum id dataBuffer (syncTextFrame False
     (?e\<lparr>isDirty := True, cursorPos := \<lparr>X = 3, Y = 0\<rparr>, dataBuffer := [''abcdef'']\<rparr>)) = Inr [''abcdef'']"
    by (simp add: eval_simps)
  have r1: "map_sum id dataBuffer (handleKeyInsertMode (pressKey KeyBackspace) ?e) = Inr [''abcdef'']"
    by (simp only: u w1)
  have w2: "map_sum id cursorPos (syncTextFrame False
     (?e\<lparr>isDirty := True, cursorPos := \<lparr>X = 3, Y = 0\<rparr>, dataBuffer := [''abcdef'']\<rparr>)) = Inr \<lparr>X = 3, Y = 0\<rparr>"
    by (simp add: eval_simps)
  have r2: "map_sum id cursorPos (handleKeyInsertMode (pressKey KeyBackspace) ?e) = Inr \<lparr>X = 3, Y = 0\<rparr>"
    by (simp only: u w2)
  from a b c r1 r2 show ?thesis by (intro conjI)
qed

section \<open>Runs of the editor\<close>

lemmas session_simps =
  NewEditor_def handleTextAreaCursorMovement_def fixHorizontalCursorOverflow_def
  handleKeyNormalMode_def switchToInsertMode_def handleKeyInsertMode_def enterNewBuffer_def
  backspaceDeleteChar_def backspaceMergeLines_def insertRune_def show_nat.simps saveSucceeds_def

text \<open>
  Claim C1 fails on the code. A file of five lines, the fourth 30 characters long, on a
  grid 10 wide and 4 high: after three presses of \<open>Down\<close> every redraw has succeeded,
  the cursor is on row 3, and the window is rows 4 to 4, so \<open>firstLineInFrame\<close> is
  greater than the cursor's row; the cursor is painted on screen row -1.
\<close>

theorem cursor_leaves_window_after_scrolling_down:
  "map_sum id (\<lambda>e. (firstLineInFrame e, Y (cursorPos e), lastLineInFrame e, shownCursor (screen e)))
     (NewEditor saveSucceeds ''notes.txt''
        (Some [''a'', ''b'', ''c'', ''dddddddddddddddddddddddddddddd'', ''e''])
        \<lparr>X = 10, Y = 4\<rparr> [pressKey KeyDown, pressKey KeyDown, pressKey KeyDown])
   = Inr (4, 3, 4, \<lparr>X = 0, Y = - 1\<rparr>)"
  by (simp add: eval_simps session_simps)

text \<open>
  Claim C3 fails on the code. On a grid 10 wide and 4 high (3 usable rows) a single line
  of 31 characters makes \<open>fillTextFrameFromTop\<close> index row 3 of a frame of 3 rows:
  the frame is not built and the editor panics while it starts. And when the first
  visible line is empty (a new file), row 0 of the built frame stays \<open>nil\<close>, a row
  of no cells, because the loop of \<open>fillEmptyLinesIfAnyWithTilde\<close> stops before row 0.
\<close>

theorem long_line_overruns_frame_and_empty_first_line_leaves_nil_row:
  "NewEditor saveSucceeds ''notes.txt'' (Some [''xxxxxxxxxxxxxxxxxxxxxxxxxxxxxxx''])
     \<lparr>X = 10, Y = 4\<rparr> [] = Inl Panic_index \<and>
   renderFrame (editorOn MODE_NORMAL [''xxxxxxxxxxxxxxxxxxxxxxxxxxxxxxx''] \<lparr>X = 0, Y = 0\<rparr> 0 0
     \<lparr>X = 10, Y = 4\<rparr>) = Inl Panic_index \<and>
   map_sum id fst (renderFrame (editorOn MODE_NORMAL [[]] \<lparr>X = 0, Y = 0\<rparr> 0 0 \<lparr>X = 4, Y = 4\<rparr>))
     = Inr [None, Some [CHR ''~'', CHR 0x00, CHR 0x00, CHR 0x00],
            Some [CHR ''~'', CHR 0x00, CHR 0x00, CHR 0x00]]"
proof (intro conjI)
  show "NewEditor saveSucceeds ''notes.txt'' (Some [''xxxxxxxxxxxxxxxxxxxxxxxxxxxxxxx''])
     \<lparr>X = 10, Y = 4\<rparr> [] = Inl Panic_index"
    by (simp add: eval_simps session_simps)
  show "renderFrame (editorOn MODE_NORMAL [''xxxxxxxxxxxxxxxxxxxxxxxxxxxxxxx''] \<lparr>X = 0, Y = 0\<rparr> 0 0
     \<lparr>X = 10, Y = 4\<rparr>) = Inl Panic_index"
    by (simp add: eval_simps)
  have r: "replicate 3 (None :: string option) = [None, None, None]"
    "replicate 4 (CHR 0x00) = [CHR 0x00, CHR 0x00, CHR 0x00, CHR 0x00]"
    by (simp_all add: eval_nat_numeral)
  have u: "[None, None, Some [CHR ''~'', CHR 0x00, CHR 0x00, CHR 0x00]][Suc 0 := Some [CHR ''~'', CHR 0x00, CHR 0x00, CHR 0x00]]
      = [None, Some [CHR ''~'', CHR 0x00, CHR 0x00, CHR 0x00], Some [CHR ''~'', CHR 0x00, CHR 0x00, CHR 0x00]]"
    by simp
  show "map_sum id fst (renderFrame (editorOn MODE_NORMAL [[]] \<lparr>X = 0, Y = 0\<rparr> 0 0 \<lparr>X = 4, Y = 4\<rparr>))
     = Inr [None, Some [CHR ''~'', CHR 0x00, CHR 0x00, CHR 0x00],
            Some [CHR ''~'', CHR 0x00, CHR 0x00, CHR 0x00]]"
    by (simp add: eval_simps r)
qed

text \<open>
  Claim C4 fails on the code. On the lines \<open>["ab", "c"]\<close>, \<open>A\<close> puts the cursor at
  the end of row 0 in Insert mode; \<open>Enter\<close> then gives \<open>["ab", "ab", "c"]\<close>: the new
  line is a copy of the line above it, not an empty line.
\<close>

theorem enter_at_end_of_inner_line_duplicates_it:
  "map_sum id (\<lambda>e. (dataBuffer e, cursorPos e))
     (NewEditor saveSucceeds ''notes.txt'' (Some [''ab'', ''c'']) \<lparr>X = 10, Y = 5\<rparr>
        [typeRune (CHR ''A''), pressKey KeyEnter])
   = Inr ([''ab'', ''ab'', ''c''], \<lparr>X = 0, Y = 1\<rparr>)"
  by (simp add: eval_simps session_simps)

text \<open>
  Claim C5 fails on the code. The spec's own scenario \<open>["abc", "def"]\<close> on a grid 10
  wide and 2 high: \<open>Down\<close> scrolls the window to row 1, \<open>i\<close> enters Insert mode with
  the cursor at row 1, column 0, and \<open>Backspace\<close> merges the two lines but leaves
  \<open>firstLineInFrame\<close> at 1, so the redraw reads line 1 of a buffer of one line and the
  editor panics.
\<close>

theorem backspace_merge_panics_on_stale_window:
  "NewEditor saveSucceeds ''notes.txt'' (Some [''abc'', ''def'']) \<lparr>X = 10, Y = 2\<rparr>
     [pressKey KeyDown, typeRune (CHR ''i''), pressKey KeyBackspace] = Inl Panic_index \<and>
   map_sum id (\<lambda>e. (dataBuffer e, cursorPos e, firstLineInFrame e, lastLineInFrame e, currentMode e))
     (NewEditor saveSucceeds ''notes.txt'' (Some [''abc'', ''def'']) \<lparr>X = 10, Y = 2\<rparr>
        [pressKey KeyDown, typeRune (CHR ''i'')])
     = Inr ([''abc'', ''def''], \<lparr>X = 0, Y = 1\<rparr>, 1, 1, MODE_INSERT)"
  by (simp add: eval_simps session_simps)

text \<open>
  Claim C8 fails on the code. \<open>:\<close> enters Command-line mode, \<open>Backspace\<close> deletes
  the colon and leaves the accumulated command empty, and \<open>Enter\<close> then makes
  \<open>runCommand\<close> slice the empty string from index 1: the editor panics.
\<close>

theorem empty_command_panics:
  "NewEditor saveSucceeds ''notes.txt'' (Some [''abc'']) \<lparr>X = 10, Y = 5\<rparr>
     [typeRune (CHR '':''),
      \<lparr>EventKind = ''KEY_PRESS'', Value = KeyBackspace2, Rune = CHR 0x7F\<rparr>,
      \<lparr>EventKind = ''KEY_PRESS'', Value = KeyEnter, Rune = CHR 0x0D\<rparr>] = Inl Panic_slice \<and>
   map_sum id (\<lambda>e. (currentMode e, currentCommand e))
     (NewEditor saveSucceeds ''notes.txt'' (Some [''abc'']) \<lparr>X = 10, Y = 5\<rparr>
        [typeRune (CHR '':''),
         \<lparr>EventKind = ''KEY_PRESS'', Value = KeyBackspace2, Rune = CHR 0x7F\<rparr>])
     = Inr (MODE_COMMAND_LINE, [])"
  by (simp add: eval_simps session_simps)

section \<open>Properties of the layout\<close>













end
